theory Spec2Isabelle
  imports Main
begin

section \<open>Values of the node editor\<close>

text \<open>
  The module under study is \<^verbatim>\<open>src/features/modals/NodeModal/index.tsx\<close>: the
  functions \<^verbatim>\<open>normalizeNodeData\<close>, \<^verbatim>\<open>jsonPathToString\<close>, \<^verbatim>\<open>coerceValue\<close>,
  the edit-field seeding effect and \<^verbatim>\<open>handleSaveClick\<close>.

  JavaScript numbers are IEEE doubles. They are not modelled: the number type is the
  type parameter \<open>'n\<close>, and the built-in functions of the language that the module
  calls on numbers and on JSON text are the fields of a \<open>runtime\<close> record, so that
  every general theorem below holds for whatever these built-ins compute. A string is a
  list of characters: the module compares, concatenates and indexes strings, nothing
  else.

  A property read follows the prototype chain. The objects and functions of the runtime
  that such a read can reach (\<^verbatim>\<open>Object.prototype\<close>, the function \<^verbatim>\<open>Object\<close>, ...) are
  the values \<open>JForeign f\<close>, named by the runtime; what the prototypes hold is a field of
  the runtime as well. A \<open>scalar\<close> is a value that is not a container of the document:
  \<^verbatim>\<open>null\<close>, a boolean, a number, a string, or such a foreign value.
\<close>

datatype foreign = Foreign string

datatype 'n scalar = JNull | JBool bool | JNum 'n | JStr string | JForeign foreign

text \<open>The prototype a value inherits from, by the kind of the value.\<close>

datatype proto = ObjectProto | ArrayProto | StringProto | NumberProto | BooleanProto

datatype 'n json =
    JScalar "'n scalar"
  | JArray "'n json list"
  | JObject "(string \<times> 'n json) list"

text \<open>A path segment: \<^verbatim>\<open>typeof seg === "number"\<close> (an array index) or a string.\<close>

datatype seg = Idx nat | Key string

datatype js_error = SyntaxError | TypeError | RangeError

text \<open>
  The fields of the runtime: \<^verbatim>\<open>Number(s)\<close>, \<^verbatim>\<open>Number.isNaN(n)\<close>, \<^verbatim>\<open>Number.isFinite(n)\<close>
  (what \<^verbatim>\<open>JSON.stringify\<close> tests), \<^verbatim>\<open>String(n)\<close>, the number of a length, the assignment
  \<^verbatim>\<open>arr.length = v\<close>, \<^verbatim>\<open>JSON.parse(s)\<close> with \<open>None\<close> for a SyntaxError, and the quoting of a
  string by \<^verbatim>\<open>JSON.stringify\<close>. For the prototype chain: \<open>js_inherited p k\<close> is what a
  read of the property \<open>k\<close> finds on the chain that starts at the prototype \<open>p\<close>
  (\<open>None\<close> is \<^verbatim>\<open>undefined\<close>); \<open>js_foreign_get f k\<close> is the read \<^verbatim>\<open>f[k]\<close> on a foreign
  value, which can throw, and \<open>js_foreign_set f k v\<close> the assignment \<^verbatim>\<open>f[k] = v\<close>, which
  throws (\<open>Some e\<close>) or succeeds; \<open>js_foreign_String\<close> is \<^verbatim>\<open>String(f)\<close>, and
  \<open>js_foreign_JSON d f\<close> the text of \<open>f\<close> in \<^verbatim>\<open>JSON.stringify\<close> at depth \<open>d\<close>, \<open>None\<close> for a
  function, which has none. The prototypes are taken as the language defines them:
  every property they hold can be shadowed by an assignment, and the only accessor
  among them is \<^verbatim>\<open>__proto__\<close>. An assignment to a foreign value changes that value and not
  the document; the state of the foreign values is not followed from one read to the
  next.
\<close>

record 'n runtime =
  js_Number :: "string \<Rightarrow> 'n"
  js_isNaN :: "'n \<Rightarrow> bool"
  js_isFinite :: "'n \<Rightarrow> bool"
  js_String :: "'n \<Rightarrow> string"
  js_of_nat :: "nat \<Rightarrow> 'n"
  js_set_length :: "'n json list \<Rightarrow> 'n scalar \<Rightarrow> js_error + 'n json list"
  JSON_parse :: "string \<Rightarrow> 'n json option"
  JSON_quote :: "string \<Rightarrow> string"
  js_inherited :: "proto \<Rightarrow> string \<Rightarrow> 'n scalar option"
  js_foreign_get :: "foreign \<Rightarrow> string \<Rightarrow> js_error + 'n scalar option"
  js_foreign_set :: "foreign \<Rightarrow> string \<Rightarrow> 'n scalar \<Rightarrow> js_error option"
  js_foreign_String :: "foreign \<Rightarrow> string"
  js_foreign_JSON :: "nat \<Rightarrow> foreign \<Rightarrow> string option"

abbreviation DQ :: char where "DQ \<equiv> CHR 0x22"
abbreviation LF :: char where "LF \<equiv> CHR 0x0A"

subsection \<open>Text of a scalar\<close>

text \<open>
  \<^verbatim>\<open>String(v)\<close> and the template literal \<^verbatim>\<open>`${v}`\<close> on \<^verbatim>\<open>null\<close>, a boolean, a number,
  a string or a foreign value.
\<close>

fun toText :: "'n runtime \<Rightarrow> 'n scalar \<Rightarrow> string" where
  "toText rt JNull = ''null''"
| "toText rt (JBool b) = (if b then ''true'' else ''false'')"
| "toText rt (JNum n) = js_String rt n"
| "toText rt (JStr s) = s"
| "toText rt (JForeign f) = js_foreign_String rt f"

text \<open>
  The decimal digits of a natural number: what \<^verbatim>\<open>String\<close> gives for an array index
  (indices are below \<open>2^32\<close>, far from the exponent notation that starts at \<open>10^21\<close>).
\<close>

fun show_nat :: "nat \<Rightarrow> string" where
  "show_nat n =
     (if n < 10 then [''0123456789'' ! n]
      else show_nat (n div 10) @ [''0123456789'' ! (n mod 10)])"

declare show_nat.simps [simp del]

text \<open>Reading a run of decimal digits; \<open>None\<close> when the run is empty or has another character.\<close>

definition digit_of :: "char \<Rightarrow> nat option" where
  "digit_of c = map_of (zip ''0123456789'' [0, 1, 2, 3, 4, 5, 6, 7, 8, 9]) c"

fun digits_value :: "string \<Rightarrow> nat \<Rightarrow> nat option" where
  "digits_value [] acc = Some acc"
| "digits_value (c # cs) acc =
     (case digit_of c of None \<Rightarrow> None | Some d \<Rightarrow> digits_value cs (10 * acc + d))"

definition read_nat :: "string \<Rightarrow> nat option" where
  "read_nat s = (if s = [] then None else digits_value s 0)"

text \<open>
  An array index in the sense of ECMAScript: a property key that is the canonical
  decimal text of an integer in \<open>[0, 2^32 - 1)\<close>.
\<close>

definition array_index :: "string \<Rightarrow> nat option" where
  "array_index k =
     (case read_nat k of
        None \<Rightarrow> None
      | Some i \<Rightarrow> if show_nat i = k \<and> i < 2 ^ 32 - 1 then Some i else None)"

text \<open>\<^verbatim>\<open>Array.prototype.join\<close> on strings.\<close>

fun join :: "string \<Rightarrow> string list \<Rightarrow> string" where
  "join sep [] = []"
| "join sep [x] = x"
| "join sep (x # y # ys) = x @ sep @ join sep (y # ys)"

section \<open>Path Formatter: \<^verbatim>\<open>jsonPathToString\<close>\<close>

text \<open>
  \<^verbatim>\<open>
  const jsonPathToString = (path?: NodeData["path"]) => {
    if (!path || path.length === 0) return "$";
    const segments = path.map(seg => (typeof seg === "number" ? seg : `"${seg}"`));
    return `$[${segments.join("][")}]`;
  };
  \<close>
  An absent path is \<open>None\<close>.
\<close>

fun segText :: "seg \<Rightarrow> string" where
  "segText (Idx n) = show_nat n"
| "segText (Key s) = [DQ] @ s @ [DQ]"

definition jsonPathToString :: "seg list option \<Rightarrow> string" where
  "jsonPathToString path =
     (case path of
        None \<Rightarrow> ''$''
      | Some p \<Rightarrow>
          if length p = 0 then ''$''
          else ''$['' @ join '']['' (map segText p) @ '']'')"

section \<open>Coercion Engine: \<^verbatim>\<open>coerceValue\<close>\<close>

text \<open>
  \<^verbatim>\<open>
  const coerceValue = (val: string) => {
    if (val === "null") return null;
    if (val === "true") return true;
    if (val === "false") return false;
    const n = Number(val);
    if (!Number.isNaN(n) && String(n) === val) return n;
    return val;
  };
  \<close>
\<close>

definition coerceValue :: "'n runtime \<Rightarrow> string \<Rightarrow> 'n scalar" where
  "coerceValue rt val =
     (if val = ''null'' then JNull
      else if val = ''true'' then JBool True
      else if val = ''false'' then JBool False
      else
        let n = js_Number rt val in
        if \<not> js_isNaN rt n \<and> js_String rt n = val then JNum n
        else JStr val)"

section \<open>Rows, objects and JSON text\<close>

text \<open>
  A row of a node (\<^verbatim>\<open>NodeData["text"][i]\<close>): the key is absent (\<open>None\<close>) or a string,
  the value is a scalar, the type is the text the module compares with \<^verbatim>\<open>"array"\<close>
  and \<^verbatim>\<open>"object"\<close>.
\<close>

record 'n row =
  row_key :: "string option"
  row_value :: "'n scalar"
  row_type :: string

text \<open>
  The module tests a key by its truth value (\<^verbatim>\<open>if (row.key)\<close>, \<^verbatim>\<open>!nodeRows[0].key\<close>):
  an absent key and the empty string are both false.
\<close>

definition truthy :: "string option \<Rightarrow> bool" where
  "truthy k = (case k of None \<Rightarrow> False | Some s \<Rightarrow> s \<noteq> [])"

text \<open>\<^verbatim>\<open>row.type !== "array" && row.type !== "object" && row.key\<close>\<close>

definition editable :: "'n row \<Rightarrow> bool" where
  "editable r = (row_type r \<noteq> ''array'' \<and> row_type r \<noteq> ''object'' \<and> truthy (row_key r))"

text \<open>
  A JavaScript object with string keys, as the list of its own properties in the order
  \<^verbatim>\<open>JSON.stringify\<close> and \<^verbatim>\<open>Object.keys\<close> enumerate them: the array-index keys first,
  in ascending numeric order, then the other keys in the order of their creation.
  The assignment \<^verbatim>\<open>obj[k] = v\<close> overwrites an existing property where it stands and
  creates a missing one at its place in that order (an object has each key once; in a
  list that repeats a key every occurrence is overwritten). The key \<^verbatim>\<open>__proto__\<close> is
  the exception: on an object without a property of that name the assignment runs the
  setter of \<^verbatim>\<open>Object.prototype\<close>, which creates no property (it ignores a primitive
  value and changes the prototype for \<^verbatim>\<open>null\<close> and for an object). The prototype
  of an object is not part of its value here: once an assignment has changed it, a
  further assignment to \<^verbatim>\<open>__proto__\<close> on the same object is outside the model.
\<close>

fun obj_insert_index :: "nat \<Rightarrow> string \<Rightarrow> 'v \<Rightarrow> (string \<times> 'v) list \<Rightarrow> (string \<times> 'v) list" where
  "obj_insert_index i k v [] = [(k, v)]"
| "obj_insert_index i k v ((k', v') # m) =
     (case array_index k' of
        Some j \<Rightarrow> if j < i then (k', v') # obj_insert_index i k v m else (k, v) # (k', v') # m
      | None \<Rightarrow> (k, v) # (k', v') # m)"

definition obj_set :: "string \<Rightarrow> 'v \<Rightarrow> (string \<times> 'v) list \<Rightarrow> (string \<times> 'v) list" where
  "obj_set k v m =
     (if k \<in> fst ` set m then map (\<lambda>(k', v'). (k', if k' = k then v else v')) m
      else if k = ''__proto__'' then m
      else case array_index k of
        Some i \<Rightarrow> obj_insert_index i k v m
      | None \<Rightarrow> m @ [(k, v)])"

text \<open>
  \<^verbatim>\<open>JSON.stringify(value, null, 2)\<close>: \<open>d\<close> is the nesting depth. A number that is not
  finite serialises as \<^verbatim>\<open>null\<close>. A foreign value without a JSON text (a function) is
  left out when it is the value of a property and serialises as \<^verbatim>\<open>null\<close> when it is an
  element of an array; an object of which no property is printed is \<^verbatim>\<open>{}\<close>. The root of
  the value is taken to have a text.
\<close>

definition omitted :: "'n runtime \<Rightarrow> nat \<Rightarrow> 'n json \<Rightarrow> bool" where
  "omitted rt d v =
     (case v of JScalar (JForeign f) \<Rightarrow> js_foreign_JSON rt d f = None | _ \<Rightarrow> False)"

definition indent :: "nat \<Rightarrow> string" where
  "indent d = replicate (2 * d) CHR '' ''"

fun ser :: "'n runtime \<Rightarrow> nat \<Rightarrow> 'n json \<Rightarrow> string"
  and ser_elems :: "'n runtime \<Rightarrow> nat \<Rightarrow> 'n json list \<Rightarrow> string list"
  and ser_members :: "'n runtime \<Rightarrow> nat \<Rightarrow> (string \<times> 'n json) list \<Rightarrow> string list"
where
  "ser rt d (JScalar JNull) = ''null''"
| "ser rt d (JScalar (JBool b)) = (if b then ''true'' else ''false'')"
| "ser rt d (JScalar (JNum n)) = (if js_isFinite rt n then js_String rt n else ''null'')"
| "ser rt d (JScalar (JStr s)) = JSON_quote rt s"
| "ser rt d (JScalar (JForeign f)) =
     (case js_foreign_JSON rt d f of Some t \<Rightarrow> t | None \<Rightarrow> ''null'')"
| "ser rt d (JArray xs) =
     (if xs = [] then ''[]''
      else ''['' @ [LF] @ indent (d + 1)
           @ join ('','' @ [LF] @ indent (d + 1)) (ser_elems rt (d + 1) xs)
           @ [LF] @ indent d @ '']'')"
| "ser rt d (JObject m) =
     (if ser_members rt (d + 1) m = [] then ''{}''
      else ''{'' @ [LF] @ indent (d + 1)
           @ join ('','' @ [LF] @ indent (d + 1)) (ser_members rt (d + 1) m)
           @ [LF] @ indent d @ ''}'')"
| "ser_elems rt d [] = []"
| "ser_elems rt d (x # xs) = ser rt d x # ser_elems rt d xs"
| "ser_members rt d [] = []"
| "ser_members rt d ((k, v) # m) =
     (if omitted rt d v then ser_members rt d m
      else (JSON_quote rt k @ '': '' @ ser rt d v) # ser_members rt d m)"

definition JSON_stringify :: "'n runtime \<Rightarrow> 'n json \<Rightarrow> string" where
  "JSON_stringify rt j = ser rt 0 j"

section \<open>Row Normalizer: \<^verbatim>\<open>normalizeNodeData\<close>\<close>

text \<open>
  \<^verbatim>\<open>
  const normalizeNodeData = (nodeRows: NodeData["text"]) => {
    if (!nodeRows || nodeRows.length === 0) return "{}";
    if (nodeRows.length === 1 && !nodeRows[0].key) return `${nodeRows[0].value}`;
    const obj = {};
    nodeRows?.forEach(row => {
      if (row.type !== "array" && row.type !== "object") {
        if (row.key) obj[row.key] = row.value;
      }
    });
    return JSON.stringify(obj, null, 2);
  };
  \<close>
  The only call passes \<^verbatim>\<open>nodeData?.text ?? []\<close>, so the rows are a list.
\<close>

definition collectRow :: "'n row \<Rightarrow> (string \<times> 'n json) list \<Rightarrow> (string \<times> 'n json) list" where
  "collectRow r obj =
     (if row_type r \<noteq> ''array'' \<and> row_type r \<noteq> ''object'' then
        (if truthy (row_key r) then obj_set (the (row_key r)) (JScalar (row_value r)) obj
         else obj)
      else obj)"

definition normalizeNodeData :: "'n runtime \<Rightarrow> 'n row list \<Rightarrow> string" where
  "normalizeNodeData rt nodeRows =
     (if length nodeRows = 0 then ''{}''
      else if length nodeRows = 1 \<and> \<not> truthy (row_key (nodeRows ! 0))
      then toText rt (row_value (nodeRows ! 0))
      else JSON_stringify rt (JObject (fold collectRow nodeRows [])))"

section \<open>Edit Session and Diff Engine\<close>

text \<open>
  The seeding effect, for \<^verbatim>\<open>isEditing && nodeData?.text\<close>:
  \<^verbatim>\<open>
  const fields: Record<string, string> = {};
  nodeData.text.forEach(row => {
    if (row.type !== "array" && row.type !== "object" && row.key) {
      fields[row.key] = String(row.value ?? "");
    }
  });
  setEditFields(fields);
  \<close>
  The record of pending texts is a plain object whose own properties are strings: a
  map from keys to strings. The assignment \<^verbatim>\<open>fields[k] = text\<close> stores the text, except
  for the key \<^verbatim>\<open>__proto__\<close>: \<open>fields\<close> has no property of that name, so the assignment
  runs the setter of \<^verbatim>\<open>Object.prototype\<close>, which ignores a string and stores nothing.
\<close>

definition seedRow :: "'n runtime \<Rightarrow> 'n row \<Rightarrow> (string \<rightharpoonup> string) \<Rightarrow> (string \<rightharpoonup> string)" where
  "seedRow rt r flds =
     (if editable r \<and> row_key r \<noteq> Some ''__proto__''
      then flds(the (row_key r) \<mapsto>
             toText rt (case row_value r of JNull \<Rightarrow> JStr '''' | v \<Rightarrow> v))
      else flds)"

definition seedFields :: "'n runtime \<Rightarrow> 'n row list \<Rightarrow> (string \<rightharpoonup> string)" where
  "seedFields rt rows = fold (seedRow rt) rows Map.empty"

text \<open>
  The diff of \<^verbatim>\<open>handleSaveClick\<close>:
  \<^verbatim>\<open>
  const updates = nodeData.text
    .map((row, index) => {
      if (row.type !== "array" && row.type !== "object" && row.key) {
        const newValue = editFields[row.key];
        if (newValue !== undefined && String(row.value) !== newValue) {
          return { index, value: coerceValue(newValue) };
        }
      }
      return null;
    })
    .filter((u): u is { index: number; value: any } => u !== null);
  \<close>
  The read \<^verbatim>\<open>editFields[k]\<close> yields the text stored for \<open>k\<close>; where none is stored it
  yields what the record inherits from \<^verbatim>\<open>Object.prototype\<close> under that name, which is
  \<^verbatim>\<open>undefined\<close> (\<open>None\<close>) for most keys and the prototype itself for \<^verbatim>\<open>__proto__\<close>. The
  comparison \<^verbatim>\<open>!==\<close> of the row's text with a value that is not a string is true, and
  \<^verbatim>\<open>coerceValue\<close> returns such a value as it is (none of its comparisons with a string
  holds; this takes \<^verbatim>\<open>Number(val)\<close> to return, as it does on the prototypes and on
  functions).
\<close>

record 'n upd =
  upd_index :: nat
  upd_value :: "'n scalar"

definition lookupField :: "'n runtime \<Rightarrow> (string \<rightharpoonup> string) \<Rightarrow> string \<Rightarrow> 'n scalar option" where
  "lookupField rt editFields k =
     (case editFields k of Some t \<Rightarrow> Some (JStr t) | None \<Rightarrow> js_inherited rt ObjectProto k)"

definition coerceAny :: "'n runtime \<Rightarrow> 'n scalar \<Rightarrow> 'n scalar" where
  "coerceAny rt val = (case val of JStr s \<Rightarrow> coerceValue rt s | _ \<Rightarrow> val)"

definition rowUpdate :: "'n runtime \<Rightarrow> (string \<rightharpoonup> string) \<Rightarrow> nat \<times> 'n row \<Rightarrow> 'n upd option" where
  "rowUpdate rt editFields ir =
     (case ir of (index, r) \<Rightarrow>
        if editable r then
          (case lookupField rt editFields (the (row_key r)) of
             None \<Rightarrow> None
           | Some newValue \<Rightarrow>
               if JStr (toText rt (row_value r)) \<noteq> newValue
               then Some \<lparr> upd_index = index, upd_value = coerceAny rt newValue \<rparr>
               else None)
        else None)"

definition computeUpdates :: "'n runtime \<Rightarrow> 'n row list \<Rightarrow> (string \<rightharpoonup> string) \<Rightarrow> 'n upd list" where
  "computeUpdates rt rows editFields =
     map the (filter (\<lambda>u. u \<noteq> None) (map (rowUpdate rt editFields) (enumerate 0 rows)))"

section \<open>Document Patcher\<close>

text \<open>
  The body of the \<^verbatim>\<open>try\<close> block once the node is found:
  \<^verbatim>\<open>
  let target: any = parsed;
  for (const seg of nodeToUpdate.path) {
    target = target[seg as any];
  }
  updates.forEach(u => {
    const row = nodeToUpdate.text[u.index];
    if (row && row.key) {
      target[row.key] = u.value;
    }
  });
  const updatedJson = JSON.stringify(parsed, null, 2);
  \<close>
  A value that a lookup can yield is a value of the document, a foreign value or
  \<^verbatim>\<open>undefined\<close> (\<open>None\<close>).
\<close>

text \<open>The property key of a segment (\<^verbatim>\<open>ToPropertyKey\<close>).\<close>

fun propKey :: "seg \<Rightarrow> string" where
  "propKey (Idx i) = show_nat i"
| "propKey (Key k) = k"

text \<open>
  \<^verbatim>\<open>base[k]\<close>: the own properties of an object, the elements and the length of an
  array, the characters and the length of a string come first; a number and a boolean
  have no own property. A name that is no own property is looked up on the prototype
  chain of the base, and on a foreign value the read is the runtime's (it can throw:
  \<^verbatim>\<open>caller\<close> on a function). What the chain yields is no container of the document.
  Reading a property of \<^verbatim>\<open>null\<close> throws.
\<close>

definition inherited :: "'n runtime \<Rightarrow> proto \<Rightarrow> string \<Rightarrow> js_error + 'n json option" where
  "inherited rt p k = Inr (map_option JScalar (js_inherited rt p k))"

fun getProp :: "'n runtime \<Rightarrow> 'n json \<Rightarrow> string \<Rightarrow> js_error + 'n json option" where
  "getProp rt (JObject m) k =
     (case map_of m k of Some v \<Rightarrow> Inr (Some v) | None \<Rightarrow> inherited rt ObjectProto k)"
| "getProp rt (JArray xs) k =
     (case array_index k of
        Some i \<Rightarrow> if i < length xs then Inr (Some (xs ! i)) else inherited rt ArrayProto k
      | None \<Rightarrow>
          if k = ''length'' then Inr (Some (JScalar (JNum (js_of_nat rt (length xs)))))
          else inherited rt ArrayProto k)"
| "getProp rt (JScalar (JStr s)) k =
     (case array_index k of
        Some i \<Rightarrow> if i < length s then Inr (Some (JScalar (JStr [s ! i]))) else inherited rt StringProto k
      | None \<Rightarrow>
          if k = ''length'' then Inr (Some (JScalar (JNum (js_of_nat rt (length s)))))
          else inherited rt StringProto k)"
| "getProp rt (JScalar (JNum n)) k = inherited rt NumberProto k"
| "getProp rt (JScalar (JBool b)) k = inherited rt BooleanProto k"
| "getProp rt (JScalar (JForeign f)) k =
     (case js_foreign_get rt f k of Inl e \<Rightarrow> Inl e | Inr v \<Rightarrow> Inr (map_option JScalar v))"
| "getProp rt (JScalar JNull) k = Inl TypeError"

text \<open>The loop over the path: reading a property of \<^verbatim>\<open>undefined\<close> throws as well.\<close>

fun navigate :: "'n runtime \<Rightarrow> 'n json option \<Rightarrow> seg list \<Rightarrow> js_error + 'n json option" where
  "navigate rt target [] = Inr target"
| "navigate rt target (seg # segs) =
     (case target of
        None \<Rightarrow> Inl TypeError
      | Some j \<Rightarrow>
          (case getProp rt j (propKey seg) of
             Inl e \<Rightarrow> Inl e
           | Inr target' \<Rightarrow> navigate rt target' segs))"

text \<open>
  \<^verbatim>\<open>target[k] = v\<close> in a module (strict mode): a TypeError on \<^verbatim>\<open>undefined\<close> and \<^verbatim>\<open>null\<close>,
  and on a boolean, a number or a string unless \<open>k\<close> is \<^verbatim>\<open>__proto__\<close>, whose inherited
  setter is called and does nothing on such a value. On a foreign value the assignment
  is the runtime's; it leaves the document as it is. On an array an index key stores the
  element (padding a longer array), \<^verbatim>\<open>length\<close> is the runtime's, and any other key
  changes nothing that \<^verbatim>\<open>JSON.stringify\<close> sees.
\<close>

fun setProp :: "'n runtime \<Rightarrow> 'n json option \<Rightarrow> string \<Rightarrow> 'n scalar \<Rightarrow> js_error + 'n json option" where
  "setProp rt None k v = Inl TypeError"
| "setProp rt (Some (JScalar JNull)) k v = Inl TypeError"
| "setProp rt (Some (JScalar (JForeign f))) k v =
     (case js_foreign_set rt f k v of
        Some e \<Rightarrow> Inl e
      | None \<Rightarrow> Inr (Some (JScalar (JForeign f))))"
| "setProp rt (Some (JScalar s)) k v =
     (if k = ''__proto__'' then Inr (Some (JScalar s)) else Inl TypeError)"
| "setProp rt (Some (JObject m)) k v = Inr (Some (JObject (obj_set k (JScalar v) m)))"
| "setProp rt (Some (JArray xs)) k v =
     (case array_index k of
        Some i \<Rightarrow>
          Inr (Some (JArray
            (if i < length xs then xs[i := JScalar v]
             else xs @ replicate (i - length xs) (JScalar JNull) @ [JScalar v])))
      | None \<Rightarrow>
          if k = ''length'' then
            (case js_set_length rt xs v of
               Inl e \<Rightarrow> Inl e
             | Inr xs' \<Rightarrow> Inr (Some (JArray xs')))
          else Inr (Some (JArray xs)))"

definition applyUpdate :: "'n runtime \<Rightarrow> 'n row list \<Rightarrow> 'n upd \<Rightarrow> 'n json option \<Rightarrow> js_error + 'n json option" where
  "applyUpdate rt rows u target =
     (if upd_index u < length rows \<and> truthy (row_key (rows ! upd_index u))
      then setProp rt target (the (row_key (rows ! upd_index u))) (upd_value u)
      else Inr target)"

fun assignUpdates :: "'n runtime \<Rightarrow> 'n row list \<Rightarrow> 'n upd list \<Rightarrow> 'n json option \<Rightarrow> js_error + 'n json option" where
  "assignUpdates rt rows [] target = Inr target"
| "assignUpdates rt rows (u # us) target =
     (case applyUpdate rt rows u target of
        Inl e \<Rightarrow> Inl e
      | Inr target' \<Rightarrow> assignUpdates rt rows us target')"

text \<open>
  The assignments mutate the object that \<open>target\<close> refers to, inside \<open>parsed\<close>. The tree
  from \<^verbatim>\<open>JSON.parse\<close> shares nothing, so the mutation is the replacement of the subtree
  at the path: \<open>putAt j path new\<close> follows the same lookups as \<open>navigate\<close> through the
  own properties of objects and the elements of arrays and puts \<open>new\<close> there. Where the
  path leaves the tree (through a primitive value, a length or an inherited property)
  no assignment changes the tree, and it stays as it is.
\<close>

fun putAt :: "'n json \<Rightarrow> seg list \<Rightarrow> 'n json \<Rightarrow> 'n json"
  and putAt_members :: "string \<Rightarrow> seg list \<Rightarrow> 'n json \<Rightarrow> (string \<times> 'n json) list \<Rightarrow> (string \<times> 'n json) list"
  and putAt_elems :: "nat \<Rightarrow> seg list \<Rightarrow> 'n json \<Rightarrow> 'n json list \<Rightarrow> 'n json list"
where
  "putAt j [] new = new"
| "putAt (JScalar s) (seg # segs) new = JScalar s"
| "putAt (JObject m) (seg # segs) new = JObject (putAt_members (propKey seg) segs new m)"
| "putAt (JArray xs) (seg # segs) new =
     (case array_index (propKey seg) of
        Some i \<Rightarrow> JArray (putAt_elems i segs new xs)
      | None \<Rightarrow> JArray xs)"
| "putAt_members k segs new [] = []"
| "putAt_members k segs new ((k', v) # m) =
     (if k' = k then (k', putAt v segs new) # m else (k', v) # putAt_members k segs new m)"
| "putAt_elems i segs new [] = []"
| "putAt_elems i segs new (x # xs) =
     (case i of 0 \<Rightarrow> putAt x segs new # xs | Suc i' \<Rightarrow> x # putAt_elems i' segs new xs)"

definition patchTree :: "'n runtime \<Rightarrow> 'n json \<Rightarrow> seg list \<Rightarrow> 'n row list \<Rightarrow> 'n upd list \<Rightarrow> js_error + 'n json" where
  "patchTree rt parsed path rows updates =
     (case navigate rt (Some parsed) path of
        Inl e \<Rightarrow> Inl e
      | Inr target \<Rightarrow>
          (case assignUpdates rt rows updates target of
             Inl e \<Rightarrow> Inl e
           | Inr None \<Rightarrow> Inr parsed
           | Inr (Some new) \<Rightarrow> Inr (putAt parsed path new)))"

definition applyUpdates :: "'n runtime \<Rightarrow> 'n json \<Rightarrow> seg list \<Rightarrow> 'n row list \<Rightarrow> 'n upd list \<Rightarrow> js_error + string" where
  "applyUpdates rt parsed path rows updates =
     (case patchTree rt parsed path rows updates of
        Inl e \<Rightarrow> Inl e
      | Inr parsed' \<Rightarrow> Inr (JSON_stringify rt parsed'))"

section \<open>Sync Coordinator: \<^verbatim>\<open>handleSaveClick\<close>\<close>

text \<open>
  The graph store (\<^verbatim>\<open>useGraph\<close>) holds the nodes and the selected node; the file store
  (\<^verbatim>\<open>useFile\<close>) holds the document text. Their code is not in the module: the store's
  \<^verbatim>\<open>updateNodeValues\<close> is a parameter, any function on the graph store that returns, and
  it may be missing (the module tests it); \<^verbatim>\<open>setSelectedNode\<close> and \<^verbatim>\<open>setContents\<close> store
  their argument; the store's \<^verbatim>\<open>nodes\<close> are a list, so the fallback \<^verbatim>\<open>nodes || []\<close> is
  that list. Every call to a collaborator is recorded in a trace.
\<close>

record 'n node =
  node_id :: string
  node_path :: "seg list option"
  node_text :: "'n row list"

record 'n graph =
  nodes :: "'n node list"
  selectedNode :: "'n node option"

datatype 'n event =
    UpdateNodeValues string "'n upd list"
  | JSONParse string
  | SetContents string
  | ConsoleError js_error
  | SetSelectedNode "'n node"

record 'n state =
  st_graph :: "'n graph"
  st_contents :: string
  st_isEditing :: bool
  st_editFields :: "string \<rightharpoonup> string"
  st_refreshKey :: nat
  st_codeRefreshKey :: nat
  st_timers :: nat
  st_trace :: "'n event list"

text \<open>
  The \<^verbatim>\<open>try\<close> block:
  \<^verbatim>\<open>
  const parsed = JSON.parse(contents);
  const nodes = useGraph.getState().nodes || [];
  const nodeToUpdate = nodes.find(n => n.id === nodeData.id);
  if (nodeToUpdate && nodeToUpdate.path) {
    ... (the Document Patcher)
    setContents({ contents: updatedJson, skipUpdate: false });
  }
  \<close>
  The result is the exception thrown, or the text given to \<^verbatim>\<open>setContents\<close> (\<open>None\<close> when
  the guard is false and nothing is written).
\<close>

definition trySync :: "'n runtime \<Rightarrow> string \<Rightarrow> 'n node list \<Rightarrow> string \<Rightarrow> 'n upd list \<Rightarrow> js_error + string option" where
  "trySync rt contents ns nid updates =
     (case JSON_parse rt contents of
        None \<Rightarrow> Inl SyntaxError
      | Some parsed \<Rightarrow>
          (case find (\<lambda>n. node_id n = nid) ns of
             None \<Rightarrow> Inr None
           | Some nodeToUpdate \<Rightarrow>
               (case node_path nodeToUpdate of
                  None \<Rightarrow> Inr None
                | Some path \<Rightarrow>
                    (case applyUpdates rt parsed path (node_text nodeToUpdate) updates of
                       Inl e \<Rightarrow> Inl e
                     | Inr updatedJson \<Rightarrow> Inr (Some updatedJson)))))"

text \<open>
  \<^verbatim>\<open>
  const handleSaveClick = () => {
    if (!nodeData) return;
    const updates = ...;
    if (updates.length > 0 && updateNodeValues) {
      updateNodeValues(nodeData.id, updates);
      try { ... } catch (error) {
        console.error("Failed to sync to text editor:", error);
      }
      const updatedNode = useGraph.getState().nodes.find(n => n.id === nodeData.id);
      if (updatedNode) {
        useGraph.getState().setSelectedNode(updatedNode);
      }
      setRefreshKey(prev => prev + 1);
      setCodeRefreshKey(prev => prev + 1);
      setTimeout(() => { setIsEditing(false); }, 100);
    } else {
      setIsEditing(false);
    }
  };
  \<close>
  \<open>nodeData\<close> is the selected node and \<open>contents\<close> the document text of the state the
  handler runs in. The timer is counted in \<open>st_timers\<close>; \<open>fireTimeout\<close> is its callback.
\<close>

definition saveUpdates ::
  "'n runtime \<Rightarrow> (string \<Rightarrow> 'n upd list \<Rightarrow> 'n graph \<Rightarrow> 'n graph) \<Rightarrow> 'n node \<Rightarrow> 'n upd list
     \<Rightarrow> 'n state \<Rightarrow> 'n state" where
  "saveUpdates rt update nodeData updates s =
     (let g1 = update (node_id nodeData) updates (st_graph s);
          r = trySync rt (st_contents s) (nodes g1) (node_id nodeData) updates;
          updatedNode = find (\<lambda>n. node_id n = node_id nodeData) (nodes g1)
      in s \<lparr> st_graph := (case updatedNode of
                             None \<Rightarrow> g1
                           | Some n \<Rightarrow> g1 \<lparr> selectedNode := Some n \<rparr>),
             st_contents := (case r of
                               Inr (Some updatedJson) \<Rightarrow> updatedJson
                             | _ \<Rightarrow> st_contents s),
             st_refreshKey := st_refreshKey s + 1,
             st_codeRefreshKey := st_codeRefreshKey s + 1,
             st_timers := st_timers s + 1,
             st_trace := st_trace s
               @ [UpdateNodeValues (node_id nodeData) updates, JSONParse (st_contents s)]
               @ (case r of
                    Inl e \<Rightarrow> [ConsoleError e]
                  | Inr None \<Rightarrow> []
                  | Inr (Some updatedJson) \<Rightarrow> [SetContents updatedJson])
               @ (case updatedNode of None \<Rightarrow> [] | Some n \<Rightarrow> [SetSelectedNode n]) \<rparr>)"

definition handleSaveClick ::
  "'n runtime \<Rightarrow> (string \<Rightarrow> 'n upd list \<Rightarrow> 'n graph \<Rightarrow> 'n graph) option \<Rightarrow> 'n state \<Rightarrow> 'n state" where
  "handleSaveClick rt updateNodeValues s =
     (case selectedNode (st_graph s) of
        None \<Rightarrow> s
      | Some nodeData \<Rightarrow>
          let updates = computeUpdates rt (node_text nodeData) (st_editFields s) in
          if length updates > 0 \<and> updateNodeValues \<noteq> None
          then saveUpdates rt (the updateNodeValues) nodeData updates s
          else s \<lparr> st_isEditing := False \<rparr>)"

definition fireTimeout :: "'n state \<Rightarrow> 'n state" where
  "fireTimeout s = s \<lparr> st_isEditing := False, st_timers := st_timers s - 1 \<rparr>"

text \<open>
  \<^verbatim>\<open>handleEditClick\<close> followed by the seeding effect it triggers, and
  \<^verbatim>\<open>handleCancelClick\<close>.
\<close>

definition handleEditClick :: "'n runtime \<Rightarrow> 'n state \<Rightarrow> 'n state" where
  "handleEditClick rt s =
     (case selectedNode (st_graph s) of
        None \<Rightarrow> s \<lparr> st_isEditing := True \<rparr>
      | Some nodeData \<Rightarrow>
          s \<lparr> st_isEditing := True, st_editFields := seedFields rt (node_text nodeData) \<rparr>)"

definition handleCancelClick :: "'n state \<Rightarrow> 'n state" where
  "handleCancelClick s = s \<lparr> st_editFields := Map.empty, st_isEditing := False \<rparr>"

text \<open>
  \<^verbatim>\<open>
  const handleFieldChange = (key: string, value: string) => {
    setEditFields(prev => ({ ...prev, [key]: value }));
  };
  \<close>
  The computed key of the literal defines an own property, whatever the key.
\<close>

definition handleFieldChange :: "string \<Rightarrow> string \<Rightarrow> 'n state \<Rightarrow> 'n state" where
  "handleFieldChange k v s = s \<lparr> st_editFields := (st_editFields s)(k \<mapsto> v) \<rparr>"

section \<open>A runtime on the integer fragment\<close>

text \<open>
  For evaluating the module on concrete inputs: a runtime whose numbers are \<open>NaN\<close> and
  the integers. On the strings used below it computes what ECMAScript's
  \<^verbatim>\<open>Number\<close>, \<^verbatim>\<open>Number.isNaN\<close> and \<^verbatim>\<open>String\<close> compute: a string of ASCII white space
  only is \<open>0\<close>, an optionally signed run of decimal digits is that integer, a string
  that is no numeric literal (such as \<^verbatim>\<open>"abc"\<close> or \<^verbatim>\<open>"NaN"\<close>) is \<open>NaN\<close>, and an
  integer prints as its decimal digits, \<open>NaN\<close> as \<^verbatim>\<open>"NaN"\<close>. Literals with a
  fraction, an exponent or a radix prefix, \<^verbatim>\<open>Infinity\<close>, and integers beyond \<open>2^53\<close> are
  outside this fragment; no theorem below evaluates it there.

  Of the prototype chain the fragment knows what \<^verbatim>\<open>Object.prototype\<close> holds, and for
  the other prototypes the names \<^verbatim>\<open>__proto__\<close> and \<^verbatim>\<open>constructor\<close> and the methods that
  every value takes from \<^verbatim>\<open>Object.prototype\<close>; the methods of their own that the array,
  string, number and boolean prototypes define (\<^verbatim>\<open>push\<close>, \<^verbatim>\<open>trim\<close>, their \<^verbatim>\<open>toString\<close>,
  ...) are outside it, and no theorem below evaluates it there. A foreign value is
  named as ECMAScript names it: \<^verbatim>\<open>Object.prototype\<close>, ..., the constructors \<^verbatim>\<open>Object\<close>,
  ..., and the methods of \<^verbatim>\<open>Object.prototype\<close> by their property names.
\<close>

datatype jsnum = NaN | Finite int

definition is_space :: "char \<Rightarrow> bool" where
  "is_space c = (c \<in> set [CHR '' '', CHR 0x09, CHR 0x0A, CHR 0x0B, CHR 0x0C, CHR 0x0D])"

definition trim :: "string \<Rightarrow> string" where
  "trim s = rev (dropWhile is_space (rev (dropWhile is_space s)))"

definition Number0 :: "string \<Rightarrow> jsnum" where
  "Number0 s =
     (let t = trim s in
      if t = [] then Finite 0
      else case t of
        c # cs \<Rightarrow>
          if c = CHR ''-'' then
            (case read_nat cs of None \<Rightarrow> NaN | Some v \<Rightarrow> Finite (- int v))
          else if c = CHR ''+'' then
            (case read_nat cs of None \<Rightarrow> NaN | Some v \<Rightarrow> Finite (int v))
          else
            (case read_nat t of None \<Rightarrow> NaN | Some v \<Rightarrow> Finite (int v)))"

fun String0 :: "jsnum \<Rightarrow> string" where
  "String0 NaN = ''NaN''"
| "String0 (Finite i) = (if i < 0 then ''-'' @ show_nat (nat (- i)) else show_nat (nat i))"

fun isNaN0 :: "jsnum \<Rightarrow> bool" where
  "isNaN0 NaN = True"
| "isNaN0 (Finite i) = False"

text \<open>
  \<^verbatim>\<open>QuoteJSONString\<close> on printable ASCII: the text between double quotes, with the
  double quote and the backslash escaped.
\<close>

definition quote0 :: "string \<Rightarrow> string" where
  "quote0 s =
     [DQ] @ concat (map (\<lambda>c. if c = DQ \<or> c = CHR 0x5C then [CHR 0x5C, c] else [c]) s) @ [DQ]"

text \<open>
  What a value inherits. The methods of \<^verbatim>\<open>Object.prototype\<close> are functions, the
  accessor \<^verbatim>\<open>__proto__\<close> yields the prototype of the value it is read on.
\<close>

definition objectMethods :: "string list" where
  "objectMethods =
     [''hasOwnProperty'', ''isPrototypeOf'', ''propertyIsEnumerable'', ''__defineGetter__'',
      ''__defineSetter__'', ''__lookupGetter__'', ''__lookupSetter__'']"

definition conversionMethods :: "string list" where
  "conversionMethods = [''toString'', ''toLocaleString'', ''valueOf'']"

fun constructor0 :: "proto \<Rightarrow> string" where
  "constructor0 ObjectProto = ''Object''"
| "constructor0 ArrayProto = ''Array''"
| "constructor0 StringProto = ''String''"
| "constructor0 NumberProto = ''Number''"
| "constructor0 BooleanProto = ''Boolean''"

definition protos :: "proto list" where
  "protos = [ObjectProto, ArrayProto, StringProto, NumberProto, BooleanProto]"

definition prototype0 :: "proto \<Rightarrow> foreign" where
  "prototype0 p = Foreign (constructor0 p @ ''.prototype'')"

definition inherited0 :: "proto \<Rightarrow> string \<Rightarrow> jsnum scalar option" where
  "inherited0 p k =
     (if k = ''__proto__'' then Some (JForeign (prototype0 p))
      else if k = ''constructor'' then Some (JForeign (Foreign (constructor0 p)))
      else if k \<in> set objectMethods \<or> (p = ObjectProto \<and> k \<in> set conversionMethods)
      then Some (JForeign (Foreign k))
      else None)"

text \<open>
  The foreign values: the properties of \<^verbatim>\<open>Object.prototype\<close> itself (its own prototype
  is \<^verbatim>\<open>null\<close>) and \<^verbatim>\<open>Object.prototype\<close> of \<^verbatim>\<open>Object\<close> are known, other reads are
  outside the fragment. An assignment succeeds, except to the read-only properties of
  a constructor and of an object as the prototype of \<^verbatim>\<open>Object.prototype\<close>. The text
  and the number of a prototype object are those of the empty value of its kind; a
  function has no JSON text.
\<close>

definition foreign_get0 :: "foreign \<Rightarrow> string \<Rightarrow> js_error + jsnum scalar option" where
  "foreign_get0 f k =
     (if f = prototype0 ObjectProto
      then Inr (if k = ''__proto__'' then Some JNull else inherited0 ObjectProto k)
      else if f = Foreign ''Object'' \<and> k = ''prototype''
      then Inr (Some (JForeign (prototype0 ObjectProto)))
      else Inr None)"

definition foreign_set0 :: "foreign \<Rightarrow> string \<Rightarrow> jsnum scalar \<Rightarrow> js_error option" where
  "foreign_set0 f k v =
     (if f = prototype0 ObjectProto \<and> k = ''__proto__''
      then (case v of JForeign g \<Rightarrow> Some TypeError | _ \<Rightarrow> None)
      else if f \<in> set (map (\<lambda>p. Foreign (constructor0 p)) protos)
              \<and> k \<in> set [''prototype'', ''name'', ''length'']
      then Some TypeError
      else None)"

definition foreign_String0 :: "foreign \<Rightarrow> string" where
  "foreign_String0 f =
     (if f = prototype0 ObjectProto then ''[object Object]''
      else if f = prototype0 ArrayProto \<or> f = prototype0 StringProto then ''''
      else if f = prototype0 NumberProto then ''0''
      else if f = prototype0 BooleanProto then ''false''
      else case f of Foreign name \<Rightarrow> ''function '' @ name @ ''() { [native code] }'')"

definition foreign_Number0 :: "foreign \<Rightarrow> jsnum" where
  "foreign_Number0 f =
     (if f \<in> set (map prototype0 [ArrayProto, StringProto, NumberProto, BooleanProto])
      then Finite 0
      else NaN)"

definition foreign_JSON0 :: "nat \<Rightarrow> foreign \<Rightarrow> string option" where
  "foreign_JSON0 d f =
     (if f = prototype0 ObjectProto then Some ''{}''
      else if f = prototype0 ArrayProto then Some ''[]''
      else if f = prototype0 StringProto then Some [DQ, DQ]
      else if f = prototype0 NumberProto then Some ''0''
      else if f = prototype0 BooleanProto then Some ''false''
      else None)"

text \<open>
  \<^verbatim>\<open>arr.length = v\<close> on this fragment: a number that is an integer in \<open>[0, 2^32)\<close> cuts
  or pads the array (the holes of a padded array serialise as \<^verbatim>\<open>null\<close>); NaN and
  other integers raise RangeError.
\<close>

definition set_length0 :: "jsnum json list \<Rightarrow> jsnum scalar \<Rightarrow> js_error + jsnum json list" where
  "set_length0 xs v =
     (let n = (case v of
                 JNull \<Rightarrow> Finite 0
               | JBool b \<Rightarrow> Finite (if b then 1 else 0)
               | JNum m \<Rightarrow> m
               | JStr s \<Rightarrow> Number0 s
               | JForeign f \<Rightarrow> foreign_Number0 f)
      in case n of
           NaN \<Rightarrow> Inl RangeError
         | Finite i \<Rightarrow>
             if 0 \<le> i \<and> i < 2 ^ 32
             then Inr (take (nat i) xs @ replicate (nat i - length xs) (JScalar JNull))
             else Inl RangeError)"

text \<open>
  The runtime \<open>js0 parse\<close>: the fragment above, with \<^verbatim>\<open>JSON.parse\<close> given as \<open>parse\<close>.
\<close>

definition js0 :: "(string \<Rightarrow> jsnum json option) \<Rightarrow> jsnum runtime" where
  "js0 parse =
     \<lparr> js_Number = Number0, js_isNaN = isNaN0, js_isFinite = (\<lambda>n. \<not> isNaN0 n),
       js_String = String0, js_of_nat = (\<lambda>n. Finite (int n)),
       js_set_length = set_length0, JSON_parse = parse, JSON_quote = quote0,
       js_inherited = inherited0, js_foreign_get = foreign_get0, js_foreign_set = foreign_set0,
       js_foreign_String = foreign_String0, js_foreign_JSON = foreign_JSON0 \<rparr>"

text \<open>A \<^verbatim>\<open>JSON.parse\<close> that rejects every text.\<close>

definition no_parse :: "string \<Rightarrow> jsnum json option" where
  "no_parse s = None"

section \<open>Example data\<close>

text \<open>
  The document \<^verbatim>\<open>{"customer":{"name":"Bob","age":30}}\<close>, the node at path
  \<^verbatim>\<open>["customer"]\<close> with its two rows, a \<^verbatim>\<open>JSON.parse\<close> that knows this one text, and a
  sample store whose \<^verbatim>\<open>updateNodeValues\<close> writes each update's value into the row at its
  index, in the node of the given id.
\<close>

definition customerText :: string where
  "customerText =
     ''{'' @ [DQ] @ ''customer'' @ [DQ] @ '':{'' @ [DQ] @ ''name'' @ [DQ] @ '':'' @ [DQ] @ ''Bob''
       @ [DQ] @ '','' @ [DQ] @ ''age'' @ [DQ] @ '':30}}''"

definition customerDoc :: "jsnum json" where
  "customerDoc =
     JObject [(''customer'',
       JObject [(''name'', JScalar (JStr ''Bob'')), (''age'', JScalar (JNum (Finite 30)))])]"

definition customerRows :: "jsnum row list" where
  "customerRows =
     [\<lparr> row_key = Some ''name'', row_value = JStr ''Bob'', row_type = ''string'' \<rparr>,
      \<lparr> row_key = Some ''age'', row_value = JNum (Finite 30), row_type = ''number'' \<rparr>]"

definition customerNode :: "seg list option \<Rightarrow> jsnum node" where
  "customerNode path = \<lparr> node_id = ''2'', node_path = path, node_text = customerRows \<rparr>"

definition parseCustomer :: "string \<Rightarrow> jsnum json option" where
  "parseCustomer s = (if s = customerText then Some customerDoc else None)"

definition writeRow :: "'n upd \<Rightarrow> 'n row list \<Rightarrow> 'n row list" where
  "writeRow u rows =
     (if upd_index u < length rows
      then rows[upd_index u := (rows ! upd_index u) \<lparr> row_value := upd_value u \<rparr>]
      else rows)"

definition sampleUpdate :: "string \<Rightarrow> 'n upd list \<Rightarrow> 'n graph \<Rightarrow> 'n graph" where
  "sampleUpdate nid updates g =
     g \<lparr> nodes := map (\<lambda>n. if node_id n = nid
                              then n \<lparr> node_text := fold writeRow updates (node_text n) \<rparr>
                              else n) (nodes g) \<rparr>"

text \<open>
  The state of the modal while the node is edited: \<open>ns\<close> are the store's nodes, \<open>sel\<close> is
  the selected node, \<open>txt\<close> the document text and \<open>flds\<close> the pending texts.
\<close>

definition editing :: "'n node list \<Rightarrow> 'n node \<Rightarrow> string \<Rightarrow> (string \<rightharpoonup> string) \<Rightarrow> 'n state" where
  "editing ns sel txt flds =
     \<lparr> st_graph = \<lparr> nodes = ns, selectedNode = Some sel \<rparr>,
       st_contents = txt, st_isEditing = True, st_editFields = flds,
       st_refreshKey = 0, st_codeRefreshKey = 0, st_timers = 0, st_trace = [] \<rparr>"

text \<open>The rows, the node and the diff of the edit that sets the age to 31.\<close>

definition customerRows31 :: "jsnum row list" where
  "customerRows31 =
     [\<lparr> row_key = Some ''name'', row_value = JStr ''Bob'', row_type = ''string'' \<rparr>,
      \<lparr> row_key = Some ''age'', row_value = JNum (Finite 31), row_type = ''number'' \<rparr>]"

definition customerNode31 :: "seg list option \<Rightarrow> jsnum node" where
  "customerNode31 path = \<lparr> node_id = ''2'', node_path = path, node_text = customerRows31 \<rparr>"

definition age31 :: "jsnum upd list" where
  "age31 = [\<lparr> upd_index = 1, upd_value = JNum (Finite 31) \<rparr>]"

text \<open>
  The document \<^verbatim>\<open>{"a":null}\<close>, its root node with the one row of the \<^verbatim>\<open>null\<close> value,
  and a \<^verbatim>\<open>JSON.parse\<close> that knows this text.
\<close>

definition nullRow :: "jsnum row" where
  "nullRow = \<lparr> row_key = Some ''a'', row_value = JNull, row_type = ''null'' \<rparr>"

definition nullNode :: "jsnum node" where
  "nullNode = \<lparr> node_id = ''1'', node_path = Some [], node_text = [nullRow] \<rparr>"

definition nullText :: string where
  "nullText = ''{'' @ [DQ] @ ''a'' @ [DQ] @ '':null}''"

definition parseNull :: "string \<Rightarrow> jsnum json option" where
  "parseNull s = (if s = nullText then Some (JObject [(''a'', JScalar JNull)]) else None)"

text \<open>
  The document \<^verbatim>\<open>{"__proto__":1}\<close>, its root node with the one row of that key, and a
  \<^verbatim>\<open>JSON.parse\<close> that knows this text: it gives the object an own property of that name.
\<close>

definition protoRow :: "jsnum row" where
  "protoRow = \<lparr> row_key = Some ''__proto__'', row_value = JNum (Finite 1), row_type = ''number'' \<rparr>"

definition protoNode :: "jsnum node" where
  "protoNode = \<lparr> node_id = ''1'', node_path = Some [], node_text = [protoRow] \<rparr>"

definition protoText :: string where
  "protoText = ''{'' @ [DQ] @ ''__proto__'' @ [DQ] @ '':1}''"

definition parseProto :: "string \<Rightarrow> jsnum json option" where
  "parseProto s =
     (if s = protoText then Some (JObject [(''__proto__'', JScalar (JNum (Finite 1)))]) else None)"

section \<open>Predicates of the claims\<close>

text \<open>
  The rows that yield an update, in the words of the diff's contract: the type is neither
  \<^verbatim>\<open>array\<close> nor \<^verbatim>\<open>object\<close>, the key is present and not empty, the session holds a
  pending text for it, and that text differs from the text of the row's value. And the
  rows that yield an update in the code, where the pending value is what the read of
  the session yields.
\<close>

definition pending :: "'n runtime \<Rightarrow> (string \<rightharpoonup> string) \<Rightarrow> 'n row \<Rightarrow> bool" where
  "pending rt flds r =
     (row_type r \<noteq> ''array'' \<and> row_type r \<noteq> ''object'' \<and>
      (case row_key r of
         None \<Rightarrow> False
       | Some k \<Rightarrow>
           k \<noteq> [] \<and> (case flds k of None \<Rightarrow> False | Some t \<Rightarrow> t \<noteq> toText rt (row_value r))))"

definition contributes :: "'n runtime \<Rightarrow> (string \<rightharpoonup> string) \<Rightarrow> 'n row \<Rightarrow> bool" where
  "contributes rt flds r =
     (row_type r \<noteq> ''array'' \<and> row_type r \<noteq> ''object'' \<and>
      (case row_key r of
         None \<Rightarrow> False
       | Some k \<Rightarrow>
           k \<noteq> [] \<and> (case lookupField rt flds k of
                        None \<Rightarrow> False
                      | Some t \<Rightarrow> t \<noteq> JStr (toText rt (row_value r)))))"

text \<open>The property a row stands for, and the rows of the normaliser's contract as written:
  not of type array or object, the key present.\<close>

definition rowEntry :: "'n row \<Rightarrow> string \<times> 'n json" where
  "rowEntry r = (the (row_key r), JScalar (row_value r))"

definition keyed :: "'n row \<Rightarrow> bool" where
  "keyed r = (row_type r \<noteq> ''array'' \<and> row_type r \<noteq> ''object'' \<and> row_key r \<noteq> None)"


definition primitive :: "'n scalar \<Rightarrow> bool" where
  "primitive v = (case v of JBool b \<Rightarrow> True | JNum n \<Rightarrow> True | JStr s \<Rightarrow> True | _ \<Rightarrow> False)"





text \<open>
  A value that has properties to assign to: an object or an array. An update is applied
  when its index names a row of the store's node with a non-empty key
  (\<^verbatim>\<open>if (row && row.key)\<close>); \<open>assignments\<close> are the property assignments the updates
  make, in order, and \<open>obj_assign\<close> performs them on an object.
\<close>

definition container :: "'n json option \<Rightarrow> bool" where
  "container t = (case t of Some (JObject m) \<Rightarrow> True | Some (JArray xs) \<Rightarrow> True | _ \<Rightarrow> False)"

definition effective :: "'n row list \<Rightarrow> 'n upd \<Rightarrow> bool" where
  "effective rows u = (upd_index u < length rows \<and> truthy (row_key (rows ! upd_index u)))"



text \<open>
  The values that are no container: \<^verbatim>\<open>undefined\<close> and \<^verbatim>\<open>null\<close>, on which every read and
  every assignment throws, and a boolean, a number or a string, on which an assignment
  throws unless its key is \<^verbatim>\<open>__proto__\<close>; \<open>assigns\<close> are the applied updates with another
  key.
\<close>

definition nullish :: "'n json option \<Rightarrow> bool" where
  "nullish t = (t = None \<or> t = Some (JScalar JNull))"

definition primitive_value :: "'n json option \<Rightarrow> bool" where
  "primitive_value t = (case t of Some (JScalar v) \<Rightarrow> primitive v | _ \<Rightarrow> False)"

definition assigns :: "'n row list \<Rightarrow> 'n upd \<Rightarrow> bool" where
  "assigns rows u = (effective rows u \<and> row_key (rows ! upd_index u) \<noteq> Some ''__proto__'')"

section \<open>Theorems\<close>

subsection \<open>Evaluation on the integer fragment\<close>

lemmas js0_simps =
  js0_def Number0_def trim_def is_space_def read_nat_def digit_of_def show_nat.simps
  inherited0_def objectMethods_def conversionMethods_def prototype0_def

lemma indent_simps:
  "indent 0 = []" "indent (Suc d) = ''  '' @ indent d"
  by (simp_all add: indent_def numeral_2_eq_2)

lemmas ser_eval = JSON_stringify_def indent_simps quote0_def obj_set_def array_index_def
  collectRow_def editable_def truthy_def rowEntry_def omitted_def

subsection \<open>Decimal digits\<close>

text \<open>
  \<open>show_nat\<close> writes decimal digits only, and reading them back gives the number: the
  text of an index is an array index in the sense of \<open>array_index\<close>.
\<close>

lemma digit_of_digit: "d < 10 \<Longrightarrow> digit_of (''0123456789'' ! d) = Some d"
proof -
  assume "d < 10"
  then have "d \<in> set [0 ..< 10]"
    by simp
  also have "[0 ..< 10] = [0, 1, 2, 3, 4, 5, 6, 7, 8, 9 :: nat]"
    by (simp add: upt_rec)
  finally show ?thesis
    by (auto simp: digit_of_def)
qed

lemma digits_value_snoc:
  "digits_value (xs @ [c]) acc =
     (case digits_value xs acc of
        None \<Rightarrow> None
      | Some v \<Rightarrow> (case digit_of c of None \<Rightarrow> None | Some d \<Rightarrow> Some (10 * v + d)))"
  by (induction xs arbitrary: acc) (simp_all split: option.split)

lemma show_nat_nonempty: "show_nat n \<noteq> []"
  by (subst show_nat.simps) simp

lemma digits_show_nat: "digits_value (show_nat n) 0 = Some n"
proof (induction n rule: show_nat.induct)
  case (1 n)
  show ?case
  proof (cases "n < 10")
    case True
    then show ?thesis
      by (subst show_nat.simps) (simp add: digit_of_digit)
  next
    case False
    then have "digits_value (show_nat (n div 10)) 0 = Some (n div 10)"
      by (rule "1.IH")
    with False show ?thesis
      by (subst show_nat.simps) (simp add: digits_value_snoc digit_of_digit)
  qed
qed

lemma read_show_nat: "read_nat (show_nat n) = Some n"
  by (simp add: read_nat_def show_nat_nonempty digits_show_nat)

lemma array_index_show_nat: "i < 2 ^ 32 - 1 \<Longrightarrow> array_index (show_nat i) = Some i"
  by (simp add: array_index_def read_show_nat)

text \<open>An integer segment reads the element of an array at that index.\<close>

lemma getProp_Idx:
  "i < length xs \<Longrightarrow> length xs < 2 ^ 32 \<Longrightarrow>
   getProp rt (JArray xs) (propKey (Idx i)) = Inr (Some (xs ! i))"
  by (simp add: array_index_show_nat)

lemma show_nat_digits: "set (show_nat n) \<subseteq> set ''0123456789''"
proof (induction n rule: show_nat.induct)
  case (1 n)
  have d: "''0123456789'' ! k \<in> set ''0123456789''" if "k < 10" for k
    using that by (intro nth_mem) simp
  show ?case
  proof (cases "n < 10")
    case True
    with d [of n] show ?thesis
      by (subst show_nat.simps) simp
  next
    case False
    with "1.IH" d [of "n mod 10"] show ?thesis
      by (subst show_nat.simps) simp
  qed
qed

subsection \<open>Path Formatter\<close>

lemma join_brackets:
  "p \<noteq> [] \<Longrightarrow> ''['' @ join '']['' (map segText p) @ '']'' =
     concat (map (\<lambda>seg. ''['' @ segText seg @ '']'') p)"
proof (induction p rule: induct_list012)
  case 1
  then show ?case by simp
next
  case (2 x)
  show ?case by simp
next
  case (3 x y zs)
  then show ?case by simp
qed

text \<open>
  C9. For the absent and for the empty path \<open>jsonPathToString\<close> returns \<^verbatim>\<open>$\<close>; for every
  path it returns \<^verbatim>\<open>$\<close> followed by each segment in square brackets, in order, an
  integer segment as its decimal digits and a string segment between double quotes.
\<close>

theorem C9_jsonPathToString:
  "jsonPathToString None = ''$''
   \<and> jsonPathToString (Some []) = ''$''
   \<and> jsonPathToString (Some p) =
       ''$'' @ concat (map (\<lambda>seg. case seg of
                                  Idx n \<Rightarrow> ''['' @ show_nat n @ '']''
                                | Key s \<Rightarrow> ''['' @ [DQ] @ s @ [DQ] @ '']'') p)"
proof -
  have eq: "(\<lambda>seg. case seg of Idx n \<Rightarrow> ''['' @ show_nat n @ '']''
                             | Key s \<Rightarrow> ''['' @ [DQ] @ s @ [DQ] @ '']'')
            = (\<lambda>seg. ''['' @ segText seg @ '']'')"
    by (rule ext) (simp split: seg.split)
  have "jsonPathToString (Some p) = ''$'' @ concat (map (\<lambda>seg. ''['' @ segText seg @ '']'') p)"
  proof (cases "p = []")
    case True
    then show ?thesis by (simp add: jsonPathToString_def)
  next
    case False
    then show ?thesis
      using join_brackets [OF False] by (simp add: jsonPathToString_def)
  qed
  then show ?thesis
    unfolding eq by (simp add: jsonPathToString_def)
qed

theorem C9_example:
  "jsonPathToString (Some [Key ''customer'', Idx 0, Key ''name''])
     = ''$['' @ [DQ] @ ''customer'' @ [DQ] @ ''][0]['' @ [DQ] @ ''name'' @ [DQ] @ '']''"
  using C9_jsonPathToString [of "[Key ''customer'', Idx 0, Key ''name'']"]
  by (simp add: show_nat.simps)

subsection \<open>Coercion Engine\<close>

text \<open>
  C1 (amended). \<open>coerceValue\<close> is a total function of its input: it returns \<^verbatim>\<open>null\<close> for
  \<^verbatim>\<open>"null"\<close> and the booleans for \<^verbatim>\<open>"true"\<close> and \<^verbatim>\<open>"false"\<close>; for any other string it
  returns the numeric conversion exactly when that conversion is not NaN and its text
  is the input, and the input string otherwise. The text of the result is always the
  input.
\<close>

theorem C1_coerceValue:
  "coerceValue rt ''null'' = JNull
   \<and> coerceValue rt ''true'' = JBool True
   \<and> coerceValue rt ''false'' = JBool False
   \<and> (val \<noteq> ''null'' \<and> val \<noteq> ''true'' \<and> val \<noteq> ''false'' \<longrightarrow>
        (coerceValue rt val = JNum (js_Number rt val)
           \<longleftrightarrow> \<not> js_isNaN rt (js_Number rt val) \<and> js_String rt (js_Number rt val) = val)
        \<and> (coerceValue rt val = JNum (js_Number rt val) \<or> coerceValue rt val = JStr val))
   \<and> toText rt (coerceValue rt val) = val"
  by (auto simp: coerceValue_def Let_def)

theorem C1_examples:
  "coerceValue (js0 no_parse) ''42'' = JNum (Finite 42)
   \<and> coerceValue (js0 no_parse) ''042'' = JStr ''042''
   \<and> coerceValue (js0 no_parse) ''abc'' = JStr ''abc''
   \<and> coerceValue (js0 no_parse) '''' = JStr ''''"
  using C1_coerceValue [of "js0 no_parse" "''42''"] C1_coerceValue [of "js0 no_parse" "''042''"]
    C1_coerceValue [of "js0 no_parse" "''abc''"] C1_coerceValue [of "js0 no_parse" "''''"]
  by (simp add: coerceValue_def js0_simps)

text \<open>
  C1 as stated fails at \<^verbatim>\<open>"NaN"\<close>: the conversion is NaN, its text is the input, and
  the result is the string, not the number.
\<close>

theorem C1_counterexample_NaN:
  "\<not> (coerceValue (js0 no_parse) ''NaN'' = JNum (js_Number (js0 no_parse) ''NaN'')
        \<longleftrightarrow> js_String (js0 no_parse) (js_Number (js0 no_parse) ''NaN'') = ''NaN'')"
  by (simp add: coerceValue_def js0_simps)

subsection \<open>Diff Engine\<close>

lemma rowUpdate_cases:
  "rowUpdate rt flds (i, r) =
     (if contributes rt flds r
      then Some \<lparr> upd_index = i,
                  upd_value = coerceAny rt (the (lookupField rt flds (the (row_key r)))) \<rparr>
      else None)"
  by (auto simp: rowUpdate_def contributes_def editable_def truthy_def split: option.splits)

lemma enumerate_nth: "enumerate 0 xs = map (\<lambda>i. (i, xs ! i)) [0 ..< length xs]"
  by (rule nth_equalityI) (simp_all add: nth_enumerate_eq)

lemma computeUpdates_eq:
  "computeUpdates rt rows flds =
     map (\<lambda>i. \<lparr> upd_index = i,
                 upd_value = coerceAny rt (the (lookupField rt flds (the (row_key (rows ! i))))) \<rparr>)
       (filter (\<lambda>i. contributes rt flds (rows ! i)) [0 ..< length rows])"
proof -
  let ?f = "\<lambda>i. rowUpdate rt flds (i, rows ! i)"
  let ?u = "\<lambda>i. \<lparr> upd_index = i,
                 upd_value = coerceAny rt (the (lookupField rt flds (the (row_key (rows ! i))))) \<rparr>"
  have "computeUpdates rt rows flds = map (the \<circ> ?f) (filter (\<lambda>i. ?f i \<noteq> None) [0 ..< length rows])"
    by (simp add: computeUpdates_def enumerate_nth filter_map comp_def)
  also have "filter (\<lambda>i. ?f i \<noteq> None) [0 ..< length rows]
      = filter (\<lambda>i. contributes rt flds (rows ! i)) [0 ..< length rows]"
    by (rule filter_cong) (simp_all add: rowUpdate_cases)
  also have "map (the \<circ> ?f) (filter (\<lambda>i. contributes rt flds (rows ! i)) [0 ..< length rows])
      = map ?u (filter (\<lambda>i. contributes rt flds (rows ! i)) [0 ..< length rows])"
    by (rule map_cong) (simp_all add: rowUpdate_cases)
  finally show ?thesis .
qed

lemma lookupField_restrict:
  "k \<in> K \<Longrightarrow> lookupField rt (flds |` K) k = lookupField rt flds k"
  by (simp add: lookupField_def)

lemma contributes_restrict:
  "r \<in> set rows \<Longrightarrow>
   contributes rt (flds |` {k. \<exists>r \<in> set rows. row_key r = Some k}) r = contributes rt flds r"
  by (auto simp: contributes_def lookupField_def restrict_map_def split: option.splits)

lemma computeUpdates_restrict:
  "computeUpdates rt rows (flds |` {k. \<exists>r \<in> set rows. row_key r = Some k})
     = computeUpdates rt rows flds"
proof -
  let ?K = "{k. \<exists>r \<in> set rows. row_key r = Some k}"
  have c: "\<And>i. i < length rows \<Longrightarrow>
      contributes rt (flds |` ?K) (rows ! i) = contributes rt flds (rows ! i)"
    by (rule contributes_restrict) simp
  have v: "\<And>i. i < length rows \<Longrightarrow> contributes rt flds (rows ! i) \<Longrightarrow>
      lookupField rt (flds |` ?K) (the (row_key (rows ! i)))
        = lookupField rt flds (the (row_key (rows ! i)))"
    by (rule lookupField_restrict) (auto simp: contributes_def split: option.splits)
  have f: "filter (\<lambda>i. contributes rt (flds |` ?K) (rows ! i)) [0 ..< length rows]
      = filter (\<lambda>i. contributes rt flds (rows ! i)) [0 ..< length rows]"
    by (rule filter_cong) (simp_all add: c)
  show ?thesis
    unfolding computeUpdates_eq f
    by (rule map_cong) (simp_all add: v)
qed

text \<open>
  The diff in general: it has an update exactly for the rows that are not of type array
  or object, have a non-empty key, and for whose key the read of the session yields a
  value other than the text of the row's value. The updates are in row order, no two
  share an index, and the session's entries for keys of no row change nothing.
\<close>

lemma diff_rows:
  "map upd_index (computeUpdates rt rows flds)
     = filter (\<lambda>i. contributes rt flds (rows ! i)) [0 ..< length rows]"
  by (simp add: computeUpdates_eq comp_def)

lemma diff_order:
  "distinct (map upd_index (computeUpdates rt rows flds))"
  "sorted (map upd_index (computeUpdates rt rows flds))"
  unfolding diff_rows by (simp_all add: sorted_wrt_filter)

text \<open>
  Where every read of the session finds a stored text or nothing, the diff is the one of
  the contract: the rows with a pending text that differs, each with the coercion of
  that text.
\<close>

lemma diff_of_stored_texts:
  assumes own: "\<forall>r \<in> set rows. editable r \<longrightarrow>
      flds (the (row_key r)) \<noteq> None \<or> js_inherited rt ObjectProto (the (row_key r)) = None"
  shows "computeUpdates rt rows flds =
     map (\<lambda>i. \<lparr> upd_index = i, upd_value = coerceValue rt (the (flds (the (row_key (rows ! i))))) \<rparr>)
       (filter (\<lambda>i. pending rt flds (rows ! i)) [0 ..< length rows])"
proof -
  have ed: "editable (rows ! i)" if "contributes rt flds (rows ! i) \<or> pending rt flds (rows ! i)" for i
    using that by (auto simp: contributes_def pending_def editable_def truthy_def split: option.splits)
  have c: "contributes rt flds (rows ! i) = pending rt flds (rows ! i)" if i: "i < length rows" for i
  proof (cases "editable (rows ! i)")
    case True
    with own i have "flds (the (row_key (rows ! i))) \<noteq> None
        \<or> js_inherited rt ObjectProto (the (row_key (rows ! i))) = None"
      by simp
    then show ?thesis
      by (auto simp: contributes_def pending_def lookupField_def split: option.splits)
  next
    case False
    with ed [of i] show ?thesis by blast
  qed
  have v: "coerceAny rt (the (lookupField rt flds (the (row_key (rows ! i)))))
      = coerceValue rt (the (flds (the (row_key (rows ! i)))))"
    if i: "i < length rows" and p: "pending rt flds (rows ! i)" for i
    using p by (auto simp: pending_def lookupField_def coerceAny_def split: option.splits)
  have f: "filter (\<lambda>i. contributes rt flds (rows ! i)) [0 ..< length rows]
      = filter (\<lambda>i. pending rt flds (rows ! i)) [0 ..< length rows]"
    by (rule filter_cong) (simp_all add: c)
  show ?thesis
    unfolding computeUpdates_eq f
    by (rule map_cong) (simp_all add: v)
qed

lemma customer_age31:
  "computeUpdates (js0 p) customerRows [''age'' \<mapsto> ''31''] = age31"
  by (simp add: computeUpdates_def rowUpdate_def lookupField_def coerceAny_def editable_def
      truthy_def enumerate_eq_zip customerRows_def coerceValue_def age31_def js0_simps)

lemma customer_ghost_key:
  "computeUpdates (js0 p) customerRows [''age'' \<mapsto> ''31'', ''ghost'' \<mapsto> ''x''] = age31"
  by (simp add: computeUpdates_def rowUpdate_def lookupField_def coerceAny_def editable_def
      truthy_def enumerate_eq_zip customerRows_def coerceValue_def age31_def js0_simps)

text \<open>
  C6 (the code at a row whose key is \<^verbatim>\<open>__proto__\<close>). The seeding effect stores no text
  for such a row; the diff reads the session under that key all the same and finds the
  prototype of the record. So the diff of the untouched session has an update for a row
  for which the session holds no pending text, and its value is no coercion of a text:
  it is the prototype object.
\<close>

theorem C6_inherited_pending_value:
  assumes "js_inherited rt ObjectProto ''__proto__'' = Some (JForeign f)"
    and "t \<noteq> ''array''" and "t \<noteq> ''object''"
  shows "seedFields rt [\<lparr> row_key = Some ''__proto__'', row_value = v, row_type = t \<rparr>]
           ''__proto__'' = None
    \<and> computeUpdates rt [\<lparr> row_key = Some ''__proto__'', row_value = v, row_type = t \<rparr>]
         (seedFields rt [\<lparr> row_key = Some ''__proto__'', row_value = v, row_type = t \<rparr>])
       = [\<lparr> upd_index = 0, upd_value = JForeign f \<rparr>]"
  using assms
  by (simp add: computeUpdates_def seedFields_def seedRow_def rowUpdate_def lookupField_def
      coerceAny_def editable_def truthy_def enumerate_eq_zip)

theorem C6_proto_row_example:
  "seedFields (js0 no_parse) [protoRow] ''__proto__'' = None
   \<and> computeUpdates (js0 no_parse) [protoRow] (seedFields (js0 no_parse) [protoRow])
       = [\<lparr> upd_index = 0, upd_value = JForeign (Foreign ''Object.prototype'') \<rparr>]"
  using C6_inherited_pending_value [of "js0 no_parse" "Foreign ''Object.prototype''"
      "''number''" "JNum (Finite 1)"]
  by (simp add: protoRow_def js0_def inherited0_def prototype0_def)

subsection \<open>The diff of an untouched session\<close>

text \<open>
  C3 (the code at a row whose value is \<^verbatim>\<open>null\<close>). The session seeded from the row holds
  the empty text for its key, the diff compares it with \<^verbatim>\<open>"null"\<close>, and the diff of the
  untouched session is the update of that row to the coercion of the empty text.
\<close>

theorem C3_null_row_diff:
  "computeUpdates rt [\<lparr> row_key = Some ''a'', row_value = JNull, row_type = ''null'' \<rparr>]
     (seedFields rt [\<lparr> row_key = Some ''a'', row_value = JNull, row_type = ''null'' \<rparr>])
   = [\<lparr> upd_index = 0, upd_value = coerceValue rt '''' \<rparr>]"
  by (simp add: computeUpdates_def seedFields_def seedRow_def rowUpdate_def lookupField_def
      coerceAny_def editable_def truthy_def enumerate_eq_zip)

theorem C3_null_row_example:
  "computeUpdates (js0 no_parse)
     [\<lparr> row_key = Some ''a'', row_value = JNull, row_type = ''null'' \<rparr>]
     (seedFields (js0 no_parse) [\<lparr> row_key = Some ''a'', row_value = JNull, row_type = ''null'' \<rparr>])
   = [\<lparr> upd_index = 0, upd_value = JStr '''' \<rparr>]"
  using C3_null_row_diff [of "js0 no_parse"]
  by (simp add: coerceValue_def js0_simps)

text \<open>
  Where the mirrored session does give the empty diff: when the non-empty keys of the
  editable rows are distinct, none of them is \<^verbatim>\<open>__proto__\<close>, and none of their values is
  \<^verbatim>\<open>null\<close>.
\<close>

lemma seedRow_other:
  "\<not> (editable r \<and> the (row_key r) = k) \<Longrightarrow> seedRow rt r acc k = acc k"
  by (auto simp: seedRow_def)

lemma fold_seedRow_other:
  "\<forall>r \<in> set rows. \<not> (editable r \<and> the (row_key r) = k) \<Longrightarrow>
   fold (seedRow rt) rows acc k = acc k"
  by (induction rows arbitrary: acc) (simp_all add: seedRow_other)

lemma fold_seedRow_lookup:
  "distinct (map (\<lambda>r. the (row_key r)) (filter editable rows)) \<Longrightarrow>
   r \<in> set rows \<Longrightarrow> editable r \<Longrightarrow> row_key r \<noteq> Some ''__proto__'' \<Longrightarrow>
   fold (seedRow rt) rows acc (the (row_key r))
     = Some (toText rt (case row_value r of JNull \<Rightarrow> JStr '''' | v \<Rightarrow> v))"
proof (induction rows arbitrary: acc)
  case Nil
  then show ?case by simp
next
  case (Cons r' rows)
  show ?case
  proof (cases "editable r' \<and> the (row_key r') = the (row_key r)")
    case True
    have later: "\<forall>x \<in> set rows. \<not> (editable x \<and> the (row_key x) = the (row_key r))"
    proof
      fix x assume x: "x \<in> set rows"
      show "\<not> (editable x \<and> the (row_key x) = the (row_key r))"
      proof
        assume e: "editable x \<and> the (row_key x) = the (row_key r)"
        with x have "x \<in> set (filter editable rows)" by simp
        then have "the (row_key x) \<in> (\<lambda>r. the (row_key r)) ` set (filter editable rows)"
          by (rule imageI)
        with Cons.prems(1) True e show False by simp
      qed
    qed
    have same: "r = r'"
    proof (rule ccontr)
      assume "r \<noteq> r'"
      with Cons.prems(2) have "r \<in> set rows" by simp
      with later Cons.prems(3) show False by blast
    qed
    have "fold (seedRow rt) (r' # rows) acc (the (row_key r))
        = fold (seedRow rt) rows (seedRow rt r' acc) (the (row_key r))"
      by simp
    also have "\<dots> = seedRow rt r' acc (the (row_key r))"
      by (rule fold_seedRow_other [OF later])
    also have "\<dots> = Some (toText rt (case row_value r of JNull \<Rightarrow> JStr '''' | v \<Rightarrow> v))"
      using True Cons.prems(4) by (simp add: seedRow_def same)
    finally show ?thesis .
  next
    case False
    with Cons.prems have r: "r \<in> set rows" by auto
    have d: "distinct (map (\<lambda>r. the (row_key r)) (filter editable rows))"
      using Cons.prems(1) by (simp split: if_splits)
    show ?thesis
      using Cons.IH [OF d r Cons.prems(3) Cons.prems(4)] by simp
  qed
qed

lemma diff_of_seed_empty:
  assumes d: "distinct (map (\<lambda>r. the (row_key r)) (filter editable rows))"
    and np: "\<forall>r \<in> set rows. editable r \<longrightarrow> row_key r \<noteq> Some ''__proto__''"
    and nn: "\<forall>r \<in> set rows. editable r \<longrightarrow> row_value r \<noteq> JNull"
  shows "computeUpdates rt rows (seedFields rt rows) = []"
proof -
  have "\<not> contributes rt (seedFields rt rows) (rows ! i)" if i: "i < length rows" for i
  proof (cases "editable (rows ! i)")
    case False
    then show ?thesis
      by (auto simp: contributes_def editable_def truthy_def split: option.splits)
  next
    case True
    from i have m: "rows ! i \<in> set rows" by simp
    from nn m True have v: "row_value (rows ! i) \<noteq> JNull" by blast
    from np m True have k: "row_key (rows ! i) \<noteq> Some ''__proto__''" by blast
    have "seedFields rt rows (the (row_key (rows ! i))) = Some (toText rt (row_value (rows ! i)))"
      using fold_seedRow_lookup [OF d m True k, of rt Map.empty] v
      by (cases "row_value (rows ! i)") (simp_all add: seedFields_def)
    then show ?thesis
      by (auto simp: contributes_def lookupField_def split: option.splits)
  qed
  then have "filter (\<lambda>i. contributes rt (seedFields rt rows) (rows ! i)) [0 ..< length rows] = []"
    by (simp add: filter_empty_conv)
  then show ?thesis
    by (simp add: computeUpdates_eq)
qed

lemma customer_untouched:
  "computeUpdates (js0 p) customerRows (seedFields (js0 p) customerRows) = []"
  by (simp add: computeUpdates_def seedFields_def seedRow_def rowUpdate_def lookupField_def
      coerceAny_def editable_def truthy_def enumerate_eq_zip customerRows_def js0_simps)

subsection \<open>Row Normalizer\<close>



























lemma normalize_index_key_first: "normalizeNodeData (js0 no_parse)
     [\<lparr> row_key = Some ''b'', row_value = JNum (Finite 1), row_type = ''number'' \<rparr>,
      \<lparr> row_key = Some ''1'', row_value = JNum (Finite 2), row_type = ''number'' \<rparr>]
    = ''{'' @ [LF] @ ''  '' @ [DQ] @ ''1'' @ [DQ] @ '': 2,'' @ [LF] @ ''  '' @ [DQ] @ ''b'' @ [DQ] @ '': 1'' @ [LF] @ ''}''"
  by (simp add: normalizeNodeData_def keyed_def ser_eval js0_simps)

lemma normalize_proto_row_dropped: "normalizeNodeData (js0 no_parse)
     [protoRow, \<lparr> row_key = Some ''a'', row_value = JNum (Finite 2), row_type = ''number'' \<rparr>]
    = ''{'' @ [LF] @ ''  '' @ [DQ] @ ''a'' @ [DQ] @ '': 2'' @ [LF] @ ''}''"
  by (simp add: normalizeNodeData_def protoRow_def ser_eval js0_simps)

subsection \<open>Document Patcher: navigation\<close>

text \<open>What a lookup finds outside the own properties of the document is no container.\<close>

lemma inherited_noncontainer: "inherited rt p k = Inr t \<Longrightarrow> \<not> container t"
  by (auto simp: inherited_def container_def split: option.splits)

lemma getProp_scalar: "getProp rt (JScalar v) k = Inr t \<Longrightarrow> \<not> container t"
proof (cases v)
  case (JStr s)
  assume "getProp rt (JScalar v) k = Inr t"
  with JStr show ?thesis
    by (auto simp: container_def dest: inherited_noncontainer split: option.splits if_splits)
next
  case (JForeign f)
  assume "getProp rt (JScalar v) k = Inr t"
  with JForeign show ?thesis
    by (auto simp: container_def split: sum.splits option.splits)
qed (auto dest: inherited_noncontainer)

lemma navigate_noncontainer:
  "\<not> container t \<Longrightarrow> navigate rt t p = Inr t' \<Longrightarrow> \<not> container t'"
proof (induction p arbitrary: t)
  case Nil
  then show ?case by simp
next
  case (Cons seg segs)
  show ?case
  proof (cases t)
    case None
    with Cons.prems show ?thesis by simp
  next
    case (Some j)
    with Cons.prems(1) obtain v where j: "j = JScalar v"
      by (cases j) (simp_all add: container_def)
    show ?thesis
    proof (cases "getProp rt (JScalar v) (propKey seg)")
      case (Inl e)
      with Cons.prems(2) Some j show ?thesis by simp
    next
      case (Inr t1)
      with Cons.prems(2) Some j have "navigate rt t1 segs = Inr t'" by simp
      with Cons.IH [OF getProp_scalar [OF Inr]] show ?thesis .
    qed
  qed
qed

lemma navigate_append:
  "navigate rt t (p1 @ p2) =
     (case navigate rt t p1 of Inl e \<Rightarrow> Inl e | Inr t' \<Rightarrow> navigate rt t' p2)"
proof (induction p1 arbitrary: t)
  case Nil
  show ?case by simp
next
  case (Cons seg segs)
  show ?case
    by (simp add: Cons.IH split: option.split sum.split)
qed


lemma navigate_nullish:
  "nullish t \<Longrightarrow> p \<noteq> [] \<Longrightarrow> navigate rt t p = Inl TypeError"
  by (cases p) (auto simp: nullish_def)

text \<open>Assignments to a value that is no container.\<close>

lemma setProp_nullish: "nullish t \<Longrightarrow> setProp rt t k v = Inl TypeError"
  by (auto simp: nullish_def)

lemma setProp_primitive:
  "primitive_value t \<Longrightarrow>
   setProp rt t k v = (if k = ''__proto__'' then Inr t else Inl TypeError)"
  by (cases "(rt, t, k, v)" rule: setProp.cases)
    (simp_all add: primitive_value_def primitive_def)

lemma setProp_same:
  "\<not> container t \<Longrightarrow> setProp rt t k v = Inr t' \<Longrightarrow> t' = t"
  by (cases "(rt, t, k, v)" rule: setProp.cases)
    (auto simp: container_def split: option.splits if_splits)

lemma applyUpdate_effective:
  "applyUpdate rt rows u t =
     (if effective rows u
      then setProp rt t (the (row_key (rows ! upd_index u))) (upd_value u)
      else Inr t)"
  by (simp add: applyUpdate_def effective_def)

lemma assignUpdates_none:
  "\<forall>u \<in> set ups. \<not> effective rows u \<Longrightarrow> assignUpdates rt rows ups t = Inr t"
  by (induction ups) (simp_all add: applyUpdate_effective)

lemma assignUpdates_nullish:
  "nullish t \<Longrightarrow> \<exists>u \<in> set ups. effective rows u \<Longrightarrow>
   assignUpdates rt rows ups t = Inl TypeError"
proof (induction ups)
  case Nil
  then show ?case by simp
next
  case (Cons u ups)
  show ?case
  proof (cases "effective rows u")
    case True
    then show ?thesis
      using setProp_nullish [OF Cons.prems(1)]
      by (simp add: applyUpdate_effective)
  next
    case False
    with Cons.prems have "\<exists>u \<in> set ups. effective rows u" by auto
    with Cons.IH Cons.prems(1) False show ?thesis
      by (simp add: applyUpdate_effective)
  qed
qed

lemma assignUpdates_primitive:
  "primitive_value t \<Longrightarrow> \<exists>u \<in> set ups. assigns rows u \<Longrightarrow>
   assignUpdates rt rows ups t = Inl TypeError"
proof (induction ups)
  case Nil
  then show ?case by simp
next
  case (Cons u ups)
  show ?case
  proof (cases "assigns rows u")
    case True
    then have "effective rows u" "the (row_key (rows ! upd_index u)) \<noteq> ''__proto__''"
      by (auto simp: assigns_def effective_def truthy_def split: option.splits)
    then show ?thesis
      by (simp add: applyUpdate_effective setProp_primitive [OF Cons.prems(1)])
  next
    case False
    with Cons.prems have "\<exists>u \<in> set ups. assigns rows u" by auto
    with Cons.IH Cons.prems(1) have "assignUpdates rt rows ups t = Inl TypeError" by simp
    then show ?thesis
      by (simp add: applyUpdate_effective setProp_primitive [OF Cons.prems(1)])
  qed
qed

lemma assignUpdates_same:
  "\<not> container t \<Longrightarrow> assignUpdates rt rows ups t = Inr t' \<Longrightarrow> t' = t"
proof (induction ups)
  case Nil
  then show ?case by simp
next
  case (Cons u ups)
  show ?case
  proof (cases "applyUpdate rt rows u t")
    case (Inl e)
    with Cons.prems show ?thesis by simp
  next
    case (Inr t1)
    have "t1 = t"
    proof (cases "effective rows u")
      case True
      with Inr setProp_same [OF Cons.prems(1)] show ?thesis
        by (simp add: applyUpdate_effective)
    next
      case False
      with Inr show ?thesis by (simp add: applyUpdate_effective)
    qed
    with Cons Inr show ?thesis by simp
  qed
qed

text \<open>Writing back the subtree that navigation read leaves the tree as it is.\<close>

lemma putAt_elems_update:
  "i < length xs \<Longrightarrow> putAt_elems i segs new xs = xs[i := putAt (xs ! i) segs new]"
  by (induction xs arbitrary: i) (auto split: nat.split)

lemma putAt_members_same:
  "map_of m k = Some v \<Longrightarrow> putAt v segs new = v \<Longrightarrow> putAt_members k segs new m = m"
  by (induction m) (auto split: if_splits)

lemma putAt_members_absent:
  "map_of m k = None \<Longrightarrow> putAt_members k segs new m = m"
  by (induction m) (auto split: if_splits)

lemma putAt_elems_beyond:
  "length xs \<le> i \<Longrightarrow> putAt_elems i segs new xs = xs"
  by (induction xs arbitrary: i) (auto split: nat.split)

lemma putAt_navigate:
  "navigate rt (Some j) path = Inr (Some t) \<Longrightarrow> putAt j path t = j"
proof (induction path arbitrary: j)
  case Nil
  then show ?case by simp
next
  case (Cons seg segs)
  let ?k = "propKey seg"
  show ?case
  proof (cases j)
    case (JScalar s)
    then show ?thesis by simp
  next
    case (JObject ms)
    show ?thesis
    proof (cases "map_of ms ?k")
      case None
      then show ?thesis by (simp add: JObject putAt_members_absent)
    next
      case (Some v)
      with Cons.prems JObject have "navigate rt (Some v) segs = Inr (Some t)" by simp
      from Cons.IH [OF this] Some show ?thesis
        by (simp add: JObject putAt_members_same)
    qed
  next
    case (JArray xs)
    show ?thesis
    proof (cases "array_index ?k")
      case None
      then show ?thesis by (simp add: JArray)
    next
      case (Some i)
      show ?thesis
      proof (cases "i < length xs")
        case True
        with Cons.prems JArray Some have "navigate rt (Some (xs ! i)) segs = Inr (Some t)" by simp
        from Cons.IH [OF this] Some True show ?thesis
          by (simp add: JArray putAt_elems_update)
      next
        case False
        with Some show ?thesis by (simp add: JArray putAt_elems_beyond)
      qed
    qed
  qed
qed

lemma patchTree_noncontainer:
  assumes nav: "navigate rt (Some parsed) path = Inr t" and nc: "\<not> container t"
    and ok: "patchTree rt parsed path rows updates = Inr parsed'"
  shows "parsed' = parsed"
proof (cases "assignUpdates rt rows updates t")
  case (Inl e)
  with ok nav show ?thesis by (simp add: patchTree_def)
next
  case (Inr t')
  from assignUpdates_same [OF nc Inr] have t': "t' = t" .
  show ?thesis
  proof (cases t)
    case None
    with ok nav Inr t' show ?thesis by (simp add: patchTree_def)
  next
    case (Some new)
    with nav have "putAt parsed path new = parsed"
      by (intro putAt_navigate) simp
    with ok nav Inr t' Some show ?thesis by (simp add: patchTree_def)
  qed
qed

text \<open>
  C5 (amended). Let the lookups along the first segments \<open>p1\<close> of the path yield a
  value that is no container of the document: \<^verbatim>\<open>undefined\<close> (a missing key, an index out
  of range), \<^verbatim>\<open>null\<close>, a boolean, a number, a string, or a value of the runtime found on
  the prototype chain. If that value is \<^verbatim>\<open>undefined\<close> or \<^verbatim>\<open>null\<close> and a segment is
  left, the patcher throws a TypeError. Otherwise the remaining lookups can go on; they
  never come back to a container, and where they end
  \<^item> at \<^verbatim>\<open>undefined\<close> or \<^verbatim>\<open>null\<close>, the patcher throws a TypeError as soon as one update
    is applied (its index names a row of the store's node with a non-empty key);
  \<^item> at a boolean, a number or a string, it throws a TypeError as soon as one update
    is applied whose key is not \<^verbatim>\<open>__proto__\<close>;
  \<^item> in every case a patch that does not throw writes the text of the unchanged
    document: there is no partial output.
  An error of a lookup is the error of the patch.
\<close>

theorem C5_navigation_failure:
  assumes nav: "navigate rt (Some parsed) p1 = Inr t"
    and stuck: "\<not> container t"
  shows "(nullish t \<and> p2 \<noteq> [] \<longrightarrow>
            applyUpdates rt parsed (p1 @ p2) rows updates = Inl TypeError)
    \<and> (\<forall>t'. navigate rt (Some parsed) (p1 @ p2) = Inr t' \<longrightarrow>
          \<not> container t'
          \<and> (nullish t' \<and> (\<exists>u \<in> set updates. effective rows u) \<longrightarrow>
               applyUpdates rt parsed (p1 @ p2) rows updates = Inl TypeError)
          \<and> (primitive_value t' \<and> (\<exists>u \<in> set updates. assigns rows u) \<longrightarrow>
               applyUpdates rt parsed (p1 @ p2) rows updates = Inl TypeError)
          \<and> (\<forall>out. applyUpdates rt parsed (p1 @ p2) rows updates = Inr out \<longrightarrow>
               out = JSON_stringify rt parsed))
    \<and> (\<forall>e. navigate rt (Some parsed) (p1 @ p2) = Inl e \<longrightarrow>
          applyUpdates rt parsed (p1 @ p2) rows updates = Inl e)"
proof -
  let ?path = "p1 @ p2"
  have n: "navigate rt (Some parsed) ?path = navigate rt t p2"
    by (simp add: navigate_append nav)
  have a: "applyUpdates rt parsed ?path rows updates = Inl TypeError"
    if "nullish t" "p2 \<noteq> []"
    using navigate_nullish [OF that, of rt] by (simp add: applyUpdates_def patchTree_def n)
  have b: "\<not> container t'" if "navigate rt (Some parsed) ?path = Inr t'" for t'
    using that navigate_noncontainer [OF stuck, of rt p2 t'] by (simp add: n)
  have c: "applyUpdates rt parsed ?path rows updates = Inl TypeError"
    if "navigate rt (Some parsed) ?path = Inr t'" "nullish t'" "\<exists>u \<in> set updates. effective rows u"
    for t'
    using that(1) assignUpdates_nullish [OF that(2) that(3), of rt]
    by (simp add: applyUpdates_def patchTree_def)
  have d: "applyUpdates rt parsed ?path rows updates = Inl TypeError"
    if "navigate rt (Some parsed) ?path = Inr t'" "primitive_value t'"
      "\<exists>u \<in> set updates. assigns rows u"
    for t'
    using that(1) assignUpdates_primitive [OF that(2) that(3), of rt]
    by (simp add: applyUpdates_def patchTree_def)
  have e: "out = JSON_stringify rt parsed"
    if t': "navigate rt (Some parsed) ?path = Inr t'"
      and ok: "applyUpdates rt parsed ?path rows updates = Inr out"
    for t' out
  proof (cases "patchTree rt parsed ?path rows updates")
    case (Inl err)
    with ok show ?thesis by (simp add: applyUpdates_def)
  next
    case (Inr parsed')
    from patchTree_noncontainer [OF t' b [OF t'] Inr] have "parsed' = parsed" .
    with ok Inr show ?thesis by (simp add: applyUpdates_def)
  qed
  have f: "applyUpdates rt parsed ?path rows updates = Inl err"
    if "navigate rt (Some parsed) ?path = Inl err" for err
    using that by (simp add: applyUpdates_def patchTree_def)
  from a b c d e f show ?thesis by blast
qed

theorem C5_example:
  "applyUpdates (js0 parseCustomer) customerDoc [Key ''missing'', Key ''x''] customerRows31 age31
     = Inl TypeError
   \<and> applyUpdates (js0 parseCustomer) customerDoc [Key ''customer'', Key ''name''] customerRows31 age31
     = Inl TypeError"
proof -
  have nav: "navigate (js0 parseCustomer) (Some customerDoc) [Key ''missing''] = Inr None"
    by (simp add: customerDoc_def inherited_def js0_simps)
  have stuck: "\<not> container (None :: jsnum json option)"
    by (simp add: container_def)
  have nav2: "navigate (js0 parseCustomer) (Some customerDoc) [Key ''customer'', Key ''name'']
      = Inr (Some (JScalar (JStr ''Bob'')))"
    by (simp add: customerDoc_def)
  have stuck2: "\<not> container (Some (JScalar (JStr ''Bob'')) :: jsnum json option)"
    by (simp add: container_def)
  have eff: "\<exists>u \<in> set age31. assigns customerRows31 u"
    by (simp add: age31_def assigns_def effective_def customerRows31_def truthy_def)
  from C5_navigation_failure [OF nav stuck, of "[Key ''x'']" customerRows31 age31]
    C5_navigation_failure [OF nav2 stuck2, of "[]" customerRows31 age31] nav2 eff
  show ?thesis
    by (simp add: nullish_def primitive_value_def primitive_def)
qed

text \<open>
  C5 as stated fails in three ways, on the document \<^verbatim>\<open>{"a":5}\<close>. The key
  \<^verbatim>\<open>constructor\<close> is missing, the lookup finds the function \<^verbatim>\<open>Object\<close> on the prototype
  chain, the update is assigned to that function, and the text of the unchanged document
  is written. The lookup of \<^verbatim>\<open>a\<close> yields the number 5 with a segment left, the lookup on
  the number yields \<^verbatim>\<open>undefined\<close> without an error, and when no update is applied the
  document is serialised. And an assignment to \<^verbatim>\<open>__proto__\<close> on the number 5 does not
  throw.
\<close>

theorem C5_counterexample_silent_success:
  "navigate (js0 no_parse) (Some (JObject [(''a'', JScalar (JNum (Finite 5)))])) [Key ''constructor'']
     = Inr (Some (JScalar (JForeign (Foreign ''Object''))))
   \<and> effective customerRows31 \<lparr> upd_index = 1, upd_value = JNum (Finite 31) \<rparr>
   \<and> applyUpdates (js0 no_parse) (JObject [(''a'', JScalar (JNum (Finite 5)))])
        [Key ''constructor''] customerRows31 age31
     = Inr (''{'' @ [LF] @ ''  '' @ [DQ] @ ''a'' @ [DQ] @ '': 5'' @ [LF] @ ''}'')
   \<and> navigate (js0 no_parse) (Some (JObject [(''a'', JScalar (JNum (Finite 5)))])) [Key ''a'']
     = Inr (Some (JScalar (JNum (Finite 5))))
   \<and> applyUpdates (js0 no_parse) (JObject [(''a'', JScalar (JNum (Finite 5)))])
        [Key ''a'', Key ''x''] [] [\<lparr> upd_index = 0, upd_value = JNum (Finite 1) \<rparr>]
     = Inr (''{'' @ [LF] @ ''  '' @ [DQ] @ ''a'' @ [DQ] @ '': 5'' @ [LF] @ ''}'')
   \<and> effective [protoRow] \<lparr> upd_index = 0, upd_value = JNum (Finite 2) \<rparr>
   \<and> applyUpdates (js0 no_parse) (JObject [(''a'', JScalar (JNum (Finite 5)))])
        [Key ''a''] [protoRow] [\<lparr> upd_index = 0, upd_value = JNum (Finite 2) \<rparr>]
     = Inr (''{'' @ [LF] @ ''  '' @ [DQ] @ ''a'' @ [DQ] @ '': 5'' @ [LF] @ ''}'')"
  by (simp add: applyUpdates_def patchTree_def applyUpdate_def effective_def inherited_def
      customerRows31_def age31_def protoRow_def foreign_set0_def protos_def ser_eval js0_simps)


subsection \<open>Document Patcher: assignment\<close>














subsection \<open>Document Patcher: the tree\<close>









text \<open>The text written for the edit of the age, as in the spec's end-to-end example.\<close>

lemma customer_patched_text:
  "applyUpdates (js0 parseCustomer) customerDoc [Key ''customer''] customerRows31 age31
     = Inr (''{'' @ [LF] @ ''  '' @ [DQ] @ ''customer'' @ [DQ] @ '': {'' @ [LF]
         @ ''    '' @ [DQ] @ ''name'' @ [DQ] @ '': '' @ [DQ] @ ''Bob'' @ [DQ] @ '','' @ [LF]
         @ ''    '' @ [DQ] @ ''age'' @ [DQ] @ '': 31'' @ [LF]
         @ ''  }'' @ [LF] @ ''}'')"
  by (simp add: applyUpdates_def patchTree_def applyUpdate_def customerDoc_def
      customerRows31_def age31_def truthy_def obj_set_def ser_eval js0_simps)

subsection \<open>Sync Coordinator\<close>

lemma handleSaveClick_save:
  assumes "selectedNode (st_graph s) = Some nodeData"
    and "updates = computeUpdates rt (node_text nodeData) (st_editFields s)"
    and "updates \<noteq> []"
  shows "handleSaveClick rt (Some store) s = saveUpdates rt store nodeData updates s"
  using assms by (simp add: handleSaveClick_def Let_def)


lemma trySync_skips:
  assumes "JSON_parse rt contents = Some parsed"
    and "find (\<lambda>n. node_id n = nid) ns = None
       \<or> (\<exists>n. find (\<lambda>n. node_id n = nid) ns = Some n \<and> node_path n = None)"
  shows "trySync rt contents ns nid updates = Inr None"
  using assms by (auto simp: trySync_def)

lemma sampleUpdate_customer:
  "sampleUpdate ''2'' age31 \<lparr> nodes = [customerNode path], selectedNode = sel \<rparr>
     = \<lparr> nodes = [customerNode31 path], selectedNode = sel \<rparr>"
  by (simp add: sampleUpdate_def writeRow_def customerNode_def customerNode31_def
      customerRows_def customerRows31_def age31_def)

text \<open>
  C7. When a node is selected and the diff is empty, \<open>handleSaveClick\<close> only leaves the
  edit mode: the state is the old one with \<open>isEditing\<close> false, so no collaborator is
  called (the trace is unchanged), the graph store and the document text are unchanged,
  no refresh key moves and no timer is started.
\<close>

theorem C7_empty_diff:
  assumes "selectedNode (st_graph s) = Some nodeData"
    and "computeUpdates rt (node_text nodeData) (st_editFields s) = []"
  shows "handleSaveClick rt updateNodeValues s = s \<lparr> st_isEditing := False \<rparr>
    \<and> st_isEditing (handleSaveClick rt updateNodeValues s) = False
    \<and> st_trace (handleSaveClick rt updateNodeValues s) = st_trace s
    \<and> st_graph (handleSaveClick rt updateNodeValues s) = st_graph s
    \<and> st_contents (handleSaveClick rt updateNodeValues s) = st_contents s
    \<and> st_refreshKey (handleSaveClick rt updateNodeValues s) = st_refreshKey s
    \<and> st_codeRefreshKey (handleSaveClick rt updateNodeValues s) = st_codeRefreshKey s
    \<and> st_timers (handleSaveClick rt updateNodeValues s) = st_timers s"
  using assms by (simp add: handleSaveClick_def)

theorem C7_example:
  "handleSaveClick (js0 parseCustomer) (Some sampleUpdate)
     (editing [customerNode (Some [Key ''customer''])] (customerNode (Some [Key ''customer'']))
        customerText (seedFields (js0 parseCustomer) customerRows))
   = (editing [customerNode (Some [Key ''customer''])] (customerNode (Some [Key ''customer'']))
        customerText (seedFields (js0 parseCustomer) customerRows)) \<lparr> st_isEditing := False \<rparr>"
proof -
  let ?n = "customerNode (Some [Key ''customer''])"
  let ?s = "editing [?n] ?n customerText (seedFields (js0 parseCustomer) customerRows)"
  have sel: "selectedNode (st_graph ?s) = Some ?n"
    by (simp add: editing_def)
  have diff: "computeUpdates (js0 parseCustomer) (node_text ?n) (st_editFields ?s) = []"
    using customer_untouched [of parseCustomer] by (simp add: editing_def customerNode_def)
  from C7_empty_diff [OF sel diff, of "Some sampleUpdate"] show ?thesis
    by simp
qed



text \<open>
  C10 (amended). In a save with a non-empty diff whose document text parses, if the
  graph store has no node of the edited node's id, or the node found has no path, the
  sync step is skipped: the document text is unchanged, \<^verbatim>\<open>console.error\<close> and
  \<^verbatim>\<open>setContents\<close> are not called, the graph store is the one \<^verbatim>\<open>updateNodeValues\<close> left
  (with the found node selected), and the timer that ends the edit mode is started.
\<close>

theorem C10_sync_skipped:
  assumes sel: "selectedNode (st_graph s) = Some nodeData"
    and ups: "updates = computeUpdates rt (node_text nodeData) (st_editFields s)"
    and ne: "updates \<noteq> []"
    and g1: "g1 = store (node_id nodeData) updates (st_graph s)"
    and parses: "JSON_parse rt (st_contents s) = Some parsed"
    and skip: "find (\<lambda>n. node_id n = node_id nodeData) (nodes g1) = None
       \<or> (\<exists>n. find (\<lambda>n. node_id n = node_id nodeData) (nodes g1) = Some n \<and> node_path n = None)"
  shows "st_contents (handleSaveClick rt (Some store) s) = st_contents s
    \<and> st_trace (handleSaveClick rt (Some store) s)
        = st_trace s
          @ [UpdateNodeValues (node_id nodeData) updates, JSONParse (st_contents s)]
          @ (case find (\<lambda>n. node_id n = node_id nodeData) (nodes g1) of
               None \<Rightarrow> [] | Some n \<Rightarrow> [SetSelectedNode n])
    \<and> st_graph (handleSaveClick rt (Some store) s)
        = (case find (\<lambda>n. node_id n = node_id nodeData) (nodes g1) of
             None \<Rightarrow> g1 | Some n \<Rightarrow> g1 \<lparr> selectedNode := Some n \<rparr>)
    \<and> st_timers (handleSaveClick rt (Some store) s) = st_timers s + 1
    \<and> st_isEditing (fireTimeout (handleSaveClick rt (Some store) s)) = False"
proof -
  have r: "trySync rt (st_contents s) (nodes g1) (node_id nodeData) updates = Inr None"
    by (rule trySync_skips [OF parses skip])
  have h: "handleSaveClick rt (Some store) s = saveUpdates rt store nodeData updates s"
    by (rule handleSaveClick_save [OF sel ups ne])
  show ?thesis
    unfolding h using r g1
    by (simp add: saveUpdates_def Let_def fireTimeout_def split: option.split)
qed

theorem C10_example:
  "st_contents (handleSaveClick (js0 parseCustomer) (Some sampleUpdate)
      (editing [customerNode None] (customerNode None) customerText [''age'' \<mapsto> ''31'']))
     = customerText
   \<and> st_trace (handleSaveClick (js0 parseCustomer) (Some sampleUpdate)
      (editing [customerNode None] (customerNode None) customerText [''age'' \<mapsto> ''31'']))
     = [UpdateNodeValues ''2'' age31, JSONParse customerText, SetSelectedNode (customerNode31 None)]
   \<and> st_graph (handleSaveClick (js0 parseCustomer) (Some sampleUpdate)
      (editing [customerNode None] (customerNode None) customerText [''age'' \<mapsto> ''31'']))
     = \<lparr> nodes = [customerNode31 None], selectedNode = Some (customerNode31 None) \<rparr>"
proof -
  let ?s = "editing [customerNode None] (customerNode None) customerText [''age'' \<mapsto> ''31'']"
  let ?g = "\<lparr> nodes = [customerNode31 None], selectedNode = Some (customerNode None) \<rparr>"
  have sel: "selectedNode (st_graph ?s) = Some (customerNode None)"
    by (simp add: editing_def)
  have ups: "age31 = computeUpdates (js0 parseCustomer) (node_text (customerNode None)) (st_editFields ?s)"
    using customer_age31 [of parseCustomer] by (simp add: editing_def customerNode_def)
  have ne: "age31 \<noteq> []"
    by (simp add: age31_def)
  have g1: "?g = sampleUpdate (node_id (customerNode None)) age31 (st_graph ?s)"
    using sampleUpdate_customer [of None "Some (customerNode None)"]
    by (simp add: editing_def customerNode_def)
  have parses: "JSON_parse (js0 parseCustomer) (st_contents ?s) = Some customerDoc"
    by (simp add: editing_def js0_def parseCustomer_def)
  have skip: "find (\<lambda>n. node_id n = node_id (customerNode None)) (nodes ?g) = None
       \<or> (\<exists>n. find (\<lambda>n. node_id n = node_id (customerNode None)) (nodes ?g) = Some n
             \<and> node_path n = None)"
    by (simp add: customerNode_def customerNode31_def)
  from C10_sync_skipped [where store = sampleUpdate, OF sel ups ne g1 parses skip] show ?thesis
    by (simp add: editing_def customerNode_def customerNode31_def)
qed

text \<open>
  C10 as stated fails when the document text does not parse: \<^verbatim>\<open>JSON.parse\<close> runs before
  the node is looked up, so the node found without a path does not keep the parse error
  from \<^verbatim>\<open>console.error\<close>.
\<close>

theorem C10_counterexample_parse_error:
  "find (\<lambda>n. node_id n = node_id (customerNode None))
      (nodes (sampleUpdate ''2'' age31 \<lparr> nodes = [customerNode None], selectedNode = Some (customerNode None) \<rparr>))
     = Some (customerNode31 None)
   \<and> node_path (customerNode31 None) = None
   \<and> computeUpdates (js0 parseCustomer) customerRows [''age'' \<mapsto> ''31''] \<noteq> []
   \<and> st_trace (handleSaveClick (js0 parseCustomer) (Some sampleUpdate)
      (editing [customerNode None] (customerNode None) ''{'' [''age'' \<mapsto> ''31'']))
     = [UpdateNodeValues ''2'' age31, JSONParse ''{'', ConsoleError SyntaxError,
        SetSelectedNode (customerNode31 None)]"
proof -
  let ?s = "editing [customerNode None] (customerNode None) ''{'' [''age'' \<mapsto> ''31'']"
  have h: "handleSaveClick (js0 parseCustomer) (Some sampleUpdate) ?s
      = saveUpdates (js0 parseCustomer) sampleUpdate (customerNode None) age31 ?s"
    by (rule handleSaveClick_save)
      (simp_all add: editing_def customerNode_def customer_age31 age31_def)
  have p: "JSON_parse (js0 parseCustomer) ''{'' = None"
    by (simp add: js0_def parseCustomer_def customerText_def)
  show ?thesis
    unfolding h
    using p sampleUpdate_customer [of None "Some (customerNode None)"]
    by (simp add: saveUpdates_def Let_def trySync_def editing_def customer_age31
        customerNode_def customerNode31_def age31_def)
qed

text \<open>
  The spec's end-to-end example: the save of the age writes the patched document and
  selects the updated node.
\<close>

lemma save_customer_example:
  "st_contents (handleSaveClick (js0 parseCustomer) (Some sampleUpdate)
      (editing [customerNode (Some [Key ''customer''])] (customerNode (Some [Key ''customer'']))
         customerText [''age'' \<mapsto> ''31'']))
     = ''{'' @ [LF] @ ''  '' @ [DQ] @ ''customer'' @ [DQ] @ '': {'' @ [LF]
         @ ''    '' @ [DQ] @ ''name'' @ [DQ] @ '': '' @ [DQ] @ ''Bob'' @ [DQ] @ '','' @ [LF]
         @ ''    '' @ [DQ] @ ''age'' @ [DQ] @ '': 31'' @ [LF]
         @ ''  }'' @ [LF] @ ''}''
   \<and> st_graph (handleSaveClick (js0 parseCustomer) (Some sampleUpdate)
      (editing [customerNode (Some [Key ''customer''])] (customerNode (Some [Key ''customer'']))
         customerText [''age'' \<mapsto> ''31'']))
     = \<lparr> nodes = [customerNode31 (Some [Key ''customer''])],
         selectedNode = Some (customerNode31 (Some [Key ''customer''])) \<rparr>"
proof -
  let ?p = "Some [Key ''customer'']"
  let ?s = "editing [customerNode ?p] (customerNode ?p) customerText [''age'' \<mapsto> ''31'']"
  have h: "handleSaveClick (js0 parseCustomer) (Some sampleUpdate) ?s
      = saveUpdates (js0 parseCustomer) sampleUpdate (customerNode ?p) age31 ?s"
    by (rule handleSaveClick_save)
      (simp_all add: editing_def customerNode_def customer_age31 age31_def)
  have t: "trySync (js0 parseCustomer) customerText [customerNode31 ?p] ''2'' age31
      = Inr (Some (''{'' @ [LF] @ ''  '' @ [DQ] @ ''customer'' @ [DQ] @ '': {'' @ [LF]
         @ ''    '' @ [DQ] @ ''name'' @ [DQ] @ '': '' @ [DQ] @ ''Bob'' @ [DQ] @ '','' @ [LF]
         @ ''    '' @ [DQ] @ ''age'' @ [DQ] @ '': 31'' @ [LF]
         @ ''  }'' @ [LF] @ ''}''))"
    using customer_patched_text
    by (simp add: trySync_def js0_def parseCustomer_def customerNode31_def)
  show ?thesis
    unfolding h
    using t sampleUpdate_customer [of ?p "Some (customerNode ?p)"]
    by (simp add: saveUpdates_def Let_def editing_def customerNode_def customerNode31_def)
qed

text \<open>
  The row of a \<^verbatim>\<open>null\<close> value from end to end: entering the edit mode and saving
  without touching the field calls \<^verbatim>\<open>updateNodeValues\<close> with the empty string for the
  row and writes the document with the empty string in place of \<^verbatim>\<open>null\<close>.
\<close>

lemma untouched_null_row_is_saved:
  "st_contents (handleSaveClick (js0 parseNull) (Some sampleUpdate)
      (handleEditClick (js0 parseNull) (editing [nullNode] nullNode nullText Map.empty)))
     = ''{'' @ [LF] @ ''  '' @ [DQ] @ ''a'' @ [DQ] @ '': '' @ [DQ] @ [DQ] @ [LF] @ ''}''
   \<and> st_trace (handleSaveClick (js0 parseNull) (Some sampleUpdate)
      (handleEditClick (js0 parseNull) (editing [nullNode] nullNode nullText Map.empty)))
     = [UpdateNodeValues ''1'' [\<lparr> upd_index = 0, upd_value = JStr '''' \<rparr>],
        JSONParse nullText,
        SetContents (''{'' @ [LF] @ ''  '' @ [DQ] @ ''a'' @ [DQ] @ '': '' @ [DQ] @ [DQ] @ [LF] @ ''}''),
        SetSelectedNode (nullNode \<lparr> node_text := [nullRow \<lparr> row_value := JStr '''' \<rparr>] \<rparr>)]"
proof -
  let ?rt = "js0 parseNull"
  let ?s = "handleEditClick ?rt (editing [nullNode] nullNode nullText Map.empty)"
  let ?u = "[\<lparr> upd_index = 0, upd_value = JStr '''' \<rparr>] :: jsnum upd list"
  have sel: "selectedNode (st_graph ?s) = Some nullNode"
    by (simp add: handleEditClick_def editing_def)
  have diff: "?u = computeUpdates ?rt (node_text nullNode) (st_editFields ?s)"
    by (simp add: handleEditClick_def editing_def nullNode_def nullRow_def computeUpdates_def
        seedFields_def seedRow_def rowUpdate_def lookupField_def coerceAny_def editable_def
        truthy_def enumerate_eq_zip coerceValue_def js0_simps)
  have h: "handleSaveClick ?rt (Some sampleUpdate) ?s = saveUpdates ?rt sampleUpdate nullNode ?u ?s"
    by (rule handleSaveClick_save [OF sel diff]) simp
  have g: "sampleUpdate ''1'' ?u \<lparr> nodes = [nullNode], selectedNode = Some nullNode \<rparr>
      = \<lparr> nodes = [nullNode \<lparr> node_text := [nullRow \<lparr> row_value := JStr '''' \<rparr>] \<rparr>],
          selectedNode = Some nullNode \<rparr>"
    by (simp add: sampleUpdate_def writeRow_def nullNode_def)
  have t: "trySync ?rt nullText [nullNode \<lparr> node_text := [nullRow \<lparr> row_value := JStr '''' \<rparr>] \<rparr>]
        ''1'' ?u
      = Inr (Some (''{'' @ [LF] @ ''  '' @ [DQ] @ ''a'' @ [DQ] @ '': '' @ [DQ] @ [DQ] @ [LF] @ ''}''))"
    by (simp add: trySync_def js0_def parseNull_def nullNode_def nullRow_def applyUpdates_def
        patchTree_def applyUpdate_def truthy_def obj_set_def ser_eval)
  show ?thesis
    unfolding h
    using t g
    by (simp add: saveUpdates_def Let_def handleEditClick_def editing_def nullNode_def)
qed

text \<open>
  The row keyed \<^verbatim>\<open>__proto__\<close> from end to end, on the document \<^verbatim>\<open>{"__proto__":1}\<close>:
  entering the edit mode and saving without touching the field calls
  \<^verbatim>\<open>updateNodeValues\<close> with the prototype object for the row and writes the document
  with an empty object in place of the number.
\<close>

lemma untouched_proto_row_is_saved:
  "st_contents (handleSaveClick (js0 parseProto) (Some sampleUpdate)
      (handleEditClick (js0 parseProto) (editing [protoNode] protoNode protoText Map.empty)))
     = ''{'' @ [LF] @ ''  '' @ [DQ] @ ''__proto__'' @ [DQ] @ '': {}'' @ [LF] @ ''}''
   \<and> st_trace (handleSaveClick (js0 parseProto) (Some sampleUpdate)
      (handleEditClick (js0 parseProto) (editing [protoNode] protoNode protoText Map.empty)))
     = [UpdateNodeValues ''1'' [\<lparr> upd_index = 0, upd_value = JForeign (Foreign ''Object.prototype'') \<rparr>],
        JSONParse protoText,
        SetContents (''{'' @ [LF] @ ''  '' @ [DQ] @ ''__proto__'' @ [DQ] @ '': {}'' @ [LF] @ ''}''),
        SetSelectedNode (protoNode \<lparr> node_text :=
          [protoRow \<lparr> row_value := JForeign (Foreign ''Object.prototype'') \<rparr>] \<rparr>)]"
proof -
  let ?rt = "js0 parseProto"
  let ?s = "handleEditClick ?rt (editing [protoNode] protoNode protoText Map.empty)"
  let ?o = "JForeign (Foreign ''Object.prototype'') :: jsnum scalar"
  let ?u = "[\<lparr> upd_index = 0, upd_value = ?o \<rparr>] :: jsnum upd list"
  have sel: "selectedNode (st_graph ?s) = Some protoNode"
    by (simp add: handleEditClick_def editing_def)
  have diff: "?u = computeUpdates ?rt (node_text protoNode) (st_editFields ?s)"
    by (simp add: handleEditClick_def editing_def protoNode_def protoRow_def computeUpdates_def
        seedFields_def seedRow_def rowUpdate_def lookupField_def coerceAny_def editable_def
        truthy_def enumerate_eq_zip js0_simps)
  have h: "handleSaveClick ?rt (Some sampleUpdate) ?s = saveUpdates ?rt sampleUpdate protoNode ?u ?s"
    by (rule handleSaveClick_save [OF sel diff]) simp
  have g: "sampleUpdate ''1'' ?u \<lparr> nodes = [protoNode], selectedNode = Some protoNode \<rparr>
      = \<lparr> nodes = [protoNode \<lparr> node_text := [protoRow \<lparr> row_value := ?o \<rparr>] \<rparr>],
          selectedNode = Some protoNode \<rparr>"
    by (simp add: sampleUpdate_def writeRow_def protoNode_def)
  have t: "trySync ?rt protoText [protoNode \<lparr> node_text := [protoRow \<lparr> row_value := ?o \<rparr>] \<rparr>]
        ''1'' ?u
      = Inr (Some (''{'' @ [LF] @ ''  '' @ [DQ] @ ''__proto__'' @ [DQ] @ '': {}'' @ [LF] @ ''}''))"
    by (simp add: trySync_def js0_def parseProto_def protoNode_def protoRow_def applyUpdates_def
        patchTree_def applyUpdate_def truthy_def obj_set_def foreign_JSON0_def prototype0_def
        ser_eval)
  show ?thesis
    unfolding h
    using t g
    by (simp add: saveUpdates_def Let_def handleEditClick_def editing_def protoNode_def)
qed

text \<open>
  Once a text is typed into the field of that row, the session holds it as an own
  property and the diff carries its coercion.
\<close>

lemma typed_proto_row:
  "computeUpdates (js0 no_parse) [protoRow]
     (st_editFields (handleFieldChange ''__proto__'' ''2''
        (handleEditClick (js0 no_parse) (editing [protoNode] protoNode protoText Map.empty))))
   = [\<lparr> upd_index = 0, upd_value = JNum (Finite 2) \<rparr>]"
  by (simp add: handleFieldChange_def handleEditClick_def editing_def protoNode_def protoRow_def
      computeUpdates_def seedFields_def seedRow_def rowUpdate_def lookupField_def coerceAny_def
      coerceValue_def editable_def truthy_def enumerate_eq_zip js0_simps)

end
